theory Spec2Isabelle
  imports Main "HOL-Library.Sublist"
begin

section \<open>Python text primitives\<close>

text \<open>
  Source text, README text and model replies are Python \<open>str\<close> values. They are
  modelled as \<open>string\<close>, a list of characters with the code points 0 to 255. On
  these \<open>str.isspace\<close>, \<open>str.strip\<close> and the regular expression classes \<open>\s\<close> and
  \<open>.\<close> agree with the definitions below. \<open>lower\<close> and \<open>upper\<close> change the letters
  A to Z and a to z only; the program compares what they return with literals of
  these letters, digits and punctuation only, and no other character of the range is
  turned into one of those by \<open>str.lower\<close>, so each comparison has the outcome it has
  in Python.
\<close>

definition is_space :: "char \<Rightarrow> bool" where
  \<comment> \<open>\<open>str.isspace\<close> and the class \<open>\s\<close>: TAB, LF, VT, FF, CR, FS, GS, RS, US, space,
      NEL (U+0085) and the no-break space (U+00A0)\<close>
  "is_space c = (c \<in> set [CHR 0x09, CHR 0x0A, CHR 0x0B, CHR 0x0C, CHR 0x0D,
                           CHR 0x1C, CHR 0x1D, CHR 0x1E, CHR 0x1F, CHR '' '',
                           CHR 0x85, CHR 0xA0])"

definition strip :: "string \<Rightarrow> string" where
  \<comment> \<open>\<open>s.strip()\<close>\<close>
  "strip s = rev (dropWhile is_space (rev (dropWhile is_space s)))"

definition lower_char :: "char \<Rightarrow> char" where
  "lower_char c =
     (case map_of (zip ''ABCDEFGHIJKLMNOPQRSTUVWXYZ'' ''abcdefghijklmnopqrstuvwxyz'') c of
        Some d \<Rightarrow> d
      | None \<Rightarrow> c)"

definition lower :: "string \<Rightarrow> string" where
  \<comment> \<open>\<open>s.lower()\<close>\<close>
  "lower s = map lower_char s"

definition upper_char :: "char \<Rightarrow> char" where
  "upper_char c =
     (case map_of (zip ''abcdefghijklmnopqrstuvwxyz'' ''ABCDEFGHIJKLMNOPQRSTUVWXYZ'') c of
        Some d \<Rightarrow> d
      | None \<Rightarrow> c)"

definition upper :: "string \<Rightarrow> string" where
  \<comment> \<open>\<open>s.upper()\<close>\<close>
  "upper s = map upper_char s"

definition startswith :: "string \<Rightarrow> string \<Rightarrow> bool" where
  \<comment> \<open>\<open>s.startswith(p)\<close>\<close>
  "startswith s p = (take (length p) s = p)"

definition ci_startswith :: "string \<Rightarrow> string \<Rightarrow> bool" where
  \<comment> \<open>a literal pattern \<open>p\<close> matches at the start of \<open>s\<close> under \<open>re.IGNORECASE\<close>\<close>
  "ci_startswith s p = (lower (take (length p) s) = lower p)"

fun contains :: "string \<Rightarrow> string \<Rightarrow> bool" where
  \<comment> \<open>\<open>sub in s\<close>\<close>
  "contains [] sub = (sub = [])"
| "contains (c # s) sub = (startswith (c # s) sub \<or> contains s sub)"


fun find_ci :: "string \<Rightarrow> string \<Rightarrow> (string \<times> string) option" where
  \<comment> \<open>the same under \<open>re.IGNORECASE\<close>\<close>
  "find_ci [] sub = (if sub = [] then Some ([], []) else None)"
| "find_ci (c # s) sub =
     (if ci_startswith (c # s) sub then Some ([], drop (length sub) (c # s))
      else (case find_ci s sub of
              None \<Rightarrow> None
            | Some (before, after) \<Rightarrow> Some (c # before, after)))"

fun split_nl :: "string \<Rightarrow> string list" where
  \<comment> \<open>\<open>s.split('\n')\<close>\<close>
  "split_nl [] = [[]]"
| "split_nl (c # s) =
     (if c = CHR 0x0A then [] # split_nl s
      else (case split_nl s of
              [] \<Rightarrow> [[c]]
            | l # ls \<Rightarrow> (c # l) # ls))"

fun join :: "string \<Rightarrow> string list \<Rightarrow> string" where
  \<comment> \<open>\<open>sep.join(xs)\<close>\<close>
  "join sep [] = []"
| "join sep [x] = x"
| "join sep (x # y # ys) = x @ sep @ join sep (y # ys)"

definition py_slice :: "'a list \<Rightarrow> int \<Rightarrow> int \<Rightarrow> 'a list" where
  \<comment> \<open>\<open>xs[i:j]\<close>: a negative index counts from the end, both are clamped to the list\<close>
  "py_slice xs i j =
     (let n = int (length xs);
          a = (if i < 0 then max 0 (i + n) else min i n);
          b = (if j < 0 then max 0 (j + n) else min j n)
      in take (nat (b - a)) (drop (nat a) xs))"

definition digit_char :: "nat \<Rightarrow> char" where
  "digit_char d = ''0123456789'' ! (d mod 10)"

function str_nat :: "nat \<Rightarrow> string" where
  "str_nat n = (if n < 10 then [digit_char n] else str_nat (n div 10) @ [digit_char (n mod 10)])"
  by pat_completeness auto
termination
  by (relation "measure id") auto

definition str_int :: "int \<Rightarrow> string" where
  \<comment> \<open>\<open>str(n)\<close> of a Python int, as an f-string prints it\<close>
  "str_int n = (if n < 0 then CHR ''-'' # str_nat (nat (- n)) else str_nat (nat n))"

definition dict_get :: "('k \<times> 'v) list \<Rightarrow> 'k \<Rightarrow> 'v \<Rightarrow> 'v" where
  \<comment> \<open>\<open>d.get(key, default)\<close>\<close>
  "dict_get d k dflt = (case map_of d k of None \<Rightarrow> dflt | Some v \<Rightarrow> v)"

section \<open>Code Synthesizer: extracting the payload of a model reply\<close>

text \<open>
  The regular expressions of \<open>extract_code\<close> are literal tags around lazily matched
  text, so each is a scan for the leftmost tag followed by the nearest closing tag.
\<close>

function strip_think :: "string \<Rightarrow> string" where
  \<comment> \<open>\<open>re.sub(r"<think>.*?</think>", "", raw, flags=re.DOTALL | re.IGNORECASE)\<close>\<close>
  "strip_think [] = []"
| "strip_think (c # s) =
     (if ci_startswith (c # s) ''<think>'' then
        (case find_ci (drop 7 (c # s)) ''</think>'' of
           Some (inside, rest) \<Rightarrow> strip_think rest
         | None \<Rightarrow> c # strip_think s)
      else c # strip_think s)"
  by pat_completeness auto
termination
proof (relation "measure length")
  have shorter: "length a \<le> length t" if "find_ci t sub = Some (b, a)" for t sub b a
    using that
    by (induction t arbitrary: b) (auto split: if_splits option.splits)
  fix c s inside rest x
  assume "find_ci (drop 7 (c # s)) ''</think>'' = Some x" and "(inside, rest) = x"
  then have "length rest \<le> length (drop 7 (c # s))"
    using shorter by metis
  then show "(rest, c # s) \<in> measure length"
    by simp
qed auto

function strip_fence_open :: "string \<Rightarrow> string" where
  \<comment> \<open>\<open>re.sub(r"```(?:python)?", "", raw, flags=re.IGNORECASE)\<close>\<close>
  "strip_fence_open [] = []"
| "strip_fence_open (c # s) =
     (if startswith (c # s) ''```'' then
        (if ci_startswith (drop 3 (c # s)) ''python'' then strip_fence_open (drop 9 (c # s))
         else strip_fence_open (drop 3 (c # s)))
      else c # strip_fence_open s)"
  by pat_completeness auto
termination
  by (relation "measure length") auto

function strip_fence :: "string \<Rightarrow> string" where
  \<comment> \<open>\<open>re.sub(r"```", "", raw)\<close>\<close>
  "strip_fence [] = []"
| "strip_fence (c # s) =
     (if startswith (c # s) ''```'' then strip_fence (drop 3 (c # s))
      else c # strip_fence s)"
  by pat_completeness auto
termination
  by (relation "measure length") auto

definition search_marker :: "string \<Rightarrow> string option" where
  \<comment> \<open>group 1 of \<open>re.search(r"<PYTEST_FILE>([\s\S]*?)</PYTEST_FILE>", raw, re.IGNORECASE)\<close>:
      the text between the leftmost opening tag and the nearest closing tag after it; when
      that opening tag has no closing tag after it, no later one has\<close>
  "search_marker raw =
     (case find_ci raw ''<PYTEST_FILE>'' of
        None \<Rightarrow> None
      | Some (before, rest) \<Rightarrow>
          (case find_ci rest ''</PYTEST_FILE>'' of
             None \<Rightarrow> None
           | Some (inside, after) \<Rightarrow> Some inside))"

definition extract_code :: "string \<Rightarrow> string" where
  \<comment> \<open>\<open>extract_code\<close> of \<open>src/utils/parser.py\<close>, the same text as in \<open>Version2.py\<close>\<close>
  "extract_code raw =
     (if raw = [] then []
      else
        let raw1 = strip_think raw;
            raw2 = strip_fence_open raw1;
            raw3 = strip_fence raw2;
            raw4 = strip raw3
        in (case search_marker raw4 of
              Some inside \<Rightarrow> strip inside
            | None \<Rightarrow> strip raw4))"




section \<open>Library functions the program calls\<close>

text \<open>
  The regular expression engine, the Python parser and the JSON parser are libraries,
  not code of the repository. The program is modelled over any behaviour of them:
  \<^item> \<open>re_findall pattern text\<close> is \<open>re.findall(pattern, text)\<close> for each of the
    eight patterns of \<open>extract_functions_from_readme\<close>, the list of the names captured;
  \<^item> \<open>ast_parse text\<close> is the tree \<open>ast.parse(text)\<close> returns, \<open>None\<close> when it raises;
  \<^item> \<open>json_loads text\<close> is the outcome of \<open>json.loads(text)\<close>.
\<close>

datatype pattern =
    Pattern1  \<comment> \<open>\<open>def\s+([a-zA-Z_][a-zA-Z0-9_]*)\s*\(\<close>\<close>
  | Pattern2  \<comment> \<open>\<open>def\s+([a-zA-Z_][a-zA-Z0-9_]*)\s*\(self\<close>\<close>
  | Pattern3  \<comment> \<open>a name, \<open>\s*\([^)]*\)\<close>, between backquotes\<close>
  | Pattern4  \<comment> \<open>\<open>###\s+([a-zA-Z_][a-zA-Z0-9_]*)\s*\(\<close>\<close>
  | Pattern5  \<comment> \<open>\<open>^\s*([a-zA-Z_][a-zA-Z0-9_]*)\s*\([^)]*\)(?:\s*$|\s*[-:])\<close>, with \<open>re.MULTILINE\<close>\<close>
  | Pattern6  \<comment> \<open>\<open>\*\*([a-zA-Z_][a-zA-Z0-9_]*)\s*\([^)]*\)\*\*\<close>\<close>
  | Pattern7  \<comment> \<open>a hyphen or a bullet, \<open>\s*([a-zA-Z_][a-zA-Z0-9_]*)\s*\(\<close>\<close>
  | Pattern8  \<comment> \<open>a list item with a route between backquotes, a dash, then a name and \<open>\s*\(\<close>\<close>

datatype ast =
    FunctionDef string int int "ast list"  \<comment> \<open>name, lineno, end_lineno, child nodes\<close>
  | ClassDef string int int "ast list"     \<comment> \<open>name, lineno, end_lineno, body\<close>
  | Node "ast list"                        \<comment> \<open>any other node, with its child nodes\<close>

datatype parsed =
    JSONDecodeError                 \<comment> \<open>\<open>json.loads\<close> raises\<close>
  | NonObject                       \<comment> \<open>a JSON value that is no object: a list, a string, a number\<close>
  | Payload "(string \<times> string) list" \<comment> \<open>an object, its values strings\<close>

record library =
  re_findall :: "pattern \<Rightarrow> string \<Rightarrow> string list"
  ast_parse :: "string \<Rightarrow> ast option"
  json_loads :: "string \<Rightarrow> parsed"

fun children :: "ast \<Rightarrow> ast list" where
  "children (FunctionDef name lineno end_lineno body) = body"
| "children (ClassDef name lineno end_lineno body) = body"
| "children (Node body) = body"

fun nodes :: "ast \<Rightarrow> nat" where
  "nodes (FunctionDef name lineno end_lineno body) = Suc (sum_list (map nodes body))"
| "nodes (ClassDef name lineno end_lineno body) = Suc (sum_list (map nodes body))"
| "nodes (Node body) = Suc (sum_list (map nodes body))"

function walk_queue :: "ast list \<Rightarrow> ast list" where
  \<comment> \<open>the loop of \<open>ast.walk\<close>: the first node of the queue is yielded, its children join
      the end of the queue\<close>
  "walk_queue [] = []"
| "walk_queue (node # todo) = node # walk_queue (todo @ children node)"
  by pat_completeness auto
termination
proof (relation "measure (\<lambda>q. sum_list (map nodes q))")
  fix node :: ast and todo :: "ast list"
  have "sum_list (map nodes (children node)) < nodes node"
    by (cases node) simp_all
  then show "(todo @ children node, node # todo) \<in> measure (\<lambda>q. sum_list (map nodes q))"
    by simp
qed simp

definition walk :: "ast \<Rightarrow> ast list" where
  \<comment> \<open>\<open>ast.walk(tree)\<close>: breadth first\<close>
  "walk tree = walk_queue [tree]"

section \<open>Function Extractor\<close>

definition stopwords :: "string list" where
  "stopwords = [''module'', ''key'', ''class'', ''object'', ''property'', ''input'',
                ''output'', ''returns'', ''return'']"

fun unique_loop :: "string list \<Rightarrow> string set \<Rightarrow> string list \<Rightarrow> string list" where
  \<comment> \<open>\<open>for func in functions\<close>, with the set \<open>seen\<close> and the list \<open>unique_functions\<close>\<close>
  "unique_loop [] seen unique_functions = unique_functions"
| "unique_loop (func # functions) seen unique_functions =
     (if func \<notin> seen \<and> \<not> startswith func ''_'' \<and> lower func \<notin> set stopwords
      then unique_loop functions (insert func seen) (unique_functions @ [func])
      else unique_loop functions seen unique_functions)"

definition extract_functions_from_readme :: "library \<Rightarrow> string \<Rightarrow> string list" where
  \<comment> \<open>\<open>src/utils/parser.py\<close>\<close>
  "extract_functions_from_readme lib readme =
     (let functions =
            re_findall lib Pattern1 readme
          @ re_findall lib Pattern2 readme
          @ re_findall lib Pattern3 readme
          @ re_findall lib Pattern4 readme
          @ re_findall lib Pattern5 readme
          @ re_findall lib Pattern6 readme
          @ re_findall lib Pattern7 readme
          @ re_findall lib Pattern8 readme;
          unique_functions = unique_loop functions {} []
      in take 20 unique_functions)"

definition extract_functions_from_readme_v2 :: "library \<Rightarrow> string \<Rightarrow> string list" where
  \<comment> \<open>\<open>Version2.py\<close>: seven patterns, at most 15 names\<close>
  "extract_functions_from_readme_v2 lib readme =
     (let functions =
            re_findall lib Pattern1 readme
          @ re_findall lib Pattern2 readme
          @ re_findall lib Pattern3 readme
          @ re_findall lib Pattern4 readme
          @ re_findall lib Pattern5 readme
          @ re_findall lib Pattern6 readme
          @ re_findall lib Pattern7 readme;
          unique_functions = unique_loop functions {} []
      in take 15 unique_functions)"

fun public_function_names :: "ast list \<Rightarrow> string list" where
  \<comment> \<open>the loop of \<open>extract_functions_from_python_file\<close> over the walked nodes\<close>
  "public_function_names [] = []"
| "public_function_names (FunctionDef name lineno end_lineno body # rest) =
     (if \<not> startswith name ''_'' then name # public_function_names rest
      else public_function_names rest)"
| "public_function_names (node # rest) = public_function_names rest"

definition extract_functions_from_python_file :: "library \<Rightarrow> string \<Rightarrow> string list" where
  "extract_functions_from_python_file lib python_code =
     (case ast_parse lib python_code of
        None \<Rightarrow> []
      | Some tree \<Rightarrow> take 20 (public_function_names (walk tree)))"

definition detect_framework :: "string \<Rightarrow> string" where
  "detect_framework user_code =
     (let code_lower = lower user_code
      in if contains code_lower ''from flask import'' \<or> contains code_lower ''import flask''
         then ''flask''
         else if contains code_lower ''from django'' \<or> contains code_lower ''import django''
         then ''django''
         else if contains code_lower ''from fastapi import''
                 \<or> contains code_lower ''import fastapi''
         then ''fastapi''
         else ''generic'')"

section \<open>Workflow state and the outside world\<close>

text \<open>
  The structured report of the test runner has the shape the program reads: an optional
  \<open>summary\<close> of integer counts and an optional list \<open>tests\<close>; the empty report
  \<open>{}\<close> has neither.
\<close>

record test_entry =
  nodeid :: "string option"
  outcome :: "string option"
  longrepr :: "string option"

record report =
  summary :: "(string \<times> int) list option"
  tests :: "test_entry list option"

definition empty_report :: report where
  "empty_report = \<lparr>summary = None, tests = None\<rparr>"

record iteration_record =
  at_iteration :: int
  collected :: int
  passed :: int
  failed :: int
  errors :: int

record history_entry =
  entry_iteration :: "int option"  \<comment> \<open>the key \<open>iteration\<close>, written by \<open>Version2.py\<close> only\<close>
  agent :: string
  action :: string

text \<open>
  \<open>GraphState\<close> of \<open>src/graph/state.py\<close>. \<open>AgentState\<close> of \<open>Version2.py\<close> has the
  same keys but \<open>user_functions\<close>, \<open>combined_code\<close>, \<open>framework\<close> and
  \<open>previous_errors\<close>, which its nodes leave alone.
\<close>

record GraphState =
  readme_content :: string
  user_functions :: string
  detected_functions :: "string list"
  num_functions :: int
  iteration_results :: "iteration_record list"
  test_code :: string
  combined_code :: string
  pytest_output :: string
  pytest_stderr :: string
  return_code :: int
  report :: report
  iteration :: int
  max_iterations :: int
  feedback :: string
  status :: string
  final_message :: string
  history :: "history_entry list"
  framework :: string
  previous_errors :: "string list"

text \<open>
  What one run of the test runner does, as \<open>subprocess.run\<close> shows it: it completes with
  an exit code and two streams, or the call raises (a timeout, a missing executable).
  Either way it may have written the report file.
\<close>

datatype file_content =
    Malformed string     \<comment> \<open>\<open>json.load\<close> raises on the file, with this message\<close>
  | Wellformed report    \<comment> \<open>\<open>json.load\<close> returns this report\<close>

datatype proc_outcome =
    Completed int string string "file_content option"  \<comment> \<open>returncode, stdout, stderr, report written\<close>
  | Raised string "file_content option"                \<comment> \<open>\<open>str(e)\<close>, report written\<close>

text \<open>
  The world outside the program: the replies of the three models and the outcomes of
  the test runner, each by the number of the call, the calls made so far, and the two
  files of the working directory. The text of a prompt is not modelled: a reply is
  any string.
\<close>

record world =
  llm_generator :: "nat \<Rightarrow> string"
  llm_critic :: "nat \<Rightarrow> string"
  llm_reporter :: "nat \<Rightarrow> string"
  pytest :: "nat \<Rightarrow> proc_outcome"
  generator_calls :: nat
  critic_calls :: nat
  reporter_calls :: nat
  pytest_calls :: nat
  report_json :: "file_content option"   \<comment> \<open>the file \<open>.report.json\<close>\<close>
  test_file :: "(string \<times> string) option" \<comment> \<open>the test file written last: path, text\<close>

datatype error =
    AttributeError   \<comment> \<open>\<open>.get\<close> of a value that is no dict\<close>
  | SubprocessError string  \<comment> \<open>what \<open>subprocess.run\<close> raised\<close>

section \<open>Combiner\<close>

fun has_target_method :: "string list \<Rightarrow> ast list \<Rightarrow> bool" where
  \<comment> \<open>\<open>for item in node.body\<close>: some item is a \<open>FunctionDef\<close> of a detected name\<close>
  "has_target_method names [] = False"
| "has_target_method names (FunctionDef name lineno end_lineno body # items) =
     (if name \<in> set names then True else has_target_method names items)"
| "has_target_method names (item # items) = has_target_method names items"

definition source_lines :: "string \<Rightarrow> int \<Rightarrow> int \<Rightarrow> string" where
  \<comment> \<open>\<open>'\n'.join(user_code.split('\n')[lineno-1:end_lineno])\<close>\<close>
  "source_lines user_code lineno end_lineno =
     join ''\<newline>'' (py_slice (split_nl user_code) (lineno - 1) end_lineno)"

fun extract_loop ::
  "string \<Rightarrow> string list \<Rightarrow> ast list \<Rightarrow> string set \<Rightarrow> string list \<Rightarrow> string list" where
  \<comment> \<open>\<open>for node in ast.walk(tree)\<close>, with \<open>extracted_names\<close> and \<open>extracted_items\<close>\<close>
  "extract_loop user_code names [] extracted_names extracted_items = extracted_items"
| "extract_loop user_code names (FunctionDef name lineno end_lineno body # rest)
       extracted_names extracted_items =
     (if name \<in> set names \<and> name \<notin> extracted_names
      then extract_loop user_code names rest (insert name extracted_names)
             (extracted_items @ [source_lines user_code lineno end_lineno])
      else extract_loop user_code names rest extracted_names extracted_items)"
| "extract_loop user_code names (ClassDef name lineno end_lineno body # rest)
       extracted_names extracted_items =
     (if has_target_method names body \<and> name \<notin> extracted_names
      then extract_loop user_code names rest (insert name extracted_names)
             (extracted_items @ [source_lines user_code lineno end_lineno])
      else extract_loop user_code names rest extracted_names extracted_items)"
| "extract_loop user_code names (Node body # rest) extracted_names extracted_items =
     extract_loop user_code names rest extracted_names extracted_items"

definition essential_import :: "string \<Rightarrow> bool" where
  "essential_import line =
     ((startswith (strip line) ''import '' \<or> startswith (strip line) ''from '')
      \<and> \<not> list_ex (contains line) [''requests'', ''urllib3'', ''chardet'', ''idna''])"

definition extract_user_functions :: "library \<Rightarrow> string \<Rightarrow> string list \<Rightarrow> string" where
  "extract_user_functions lib user_code detected_function_names =
     (case ast_parse lib user_code of
        None \<Rightarrow> user_code
      | Some tree \<Rightarrow>
          (let extracted_items =
                 extract_loop user_code detected_function_names (walk tree) {} []
           in if extracted_items \<noteq> [] then
                (let result = join ''\<newline>\<newline>'' extracted_items;
                     essential_imports = filter essential_import (split_nl user_code)
                 in if essential_imports \<noteq> []
                    then join ''\<newline>'' essential_imports @ ''\<newline>\<newline>'' @ result
                    else result)
              else user_code))"

text \<open>
  The two substitutions of \<open>combiner_node\<close>, with \<open>re.MULTILINE\<close>. The first argument
  says whether the text starts a line. \<open>\s+\<close> takes a run of white space, which may
  go over line ends; \<open>.*\<close> stays on its line, and in the second pattern it is greedy,
  so the last \<open>import\<close> of the line that white space follows is the one matched.
\<close>

definition space_first :: "string \<Rightarrow> bool" where
  "space_first s = (case s of [] \<Rightarrow> False | c # rest \<Rightarrow> is_space c)"

function sub_import :: "bool \<Rightarrow> string \<Rightarrow> string" where
  \<comment> \<open>\<open>re.sub(r'^import\s+.*$', '', text, flags=re.MULTILINE)\<close>\<close>
  "sub_import bol [] = []"
| "sub_import bol (c # s) =
     (if bol \<and> startswith (c # s) ''import'' \<and> space_first (drop 6 (c # s))
      then sub_import False
             (dropWhile (\<lambda>x. x \<noteq> CHR 0x0A) (dropWhile is_space (drop 6 (c # s))))
      else c # sub_import (c = CHR 0x0A) s)"
  by pat_completeness auto
termination
proof (relation "measure (\<lambda>(bol, s). length s)")
  fix c :: char and s :: string
  have "length (dropWhile (\<lambda>x. x \<noteq> CHR 0x0A) (dropWhile is_space (drop 6 (c # s))))
          \<le> length (dropWhile is_space (drop 6 (c # s)))"
    by (rule length_dropWhile_le)
  also have "\<dots> \<le> length (drop 6 (c # s))"
    by (rule length_dropWhile_le)
  also have "\<dots> < length (c # s)"
    by simp
  finally show "((False, dropWhile (\<lambda>x. x \<noteq> CHR 0x0A) (dropWhile is_space (drop 6 (c # s)))),
                 (bol, c # s)) \<in> measure (\<lambda>(bol, s). length s)" for bol
    by simp
qed auto

fun find_last_import :: "string \<Rightarrow> string option" where
  \<comment> \<open>the text after the last \<open>import\<close> of the first line that white space follows\<close>
  "find_last_import [] = None"
| "find_last_import (c # s) =
     (if c = CHR 0x0A then None
      else (case find_last_import s of
              Some after \<Rightarrow> Some after
            | None \<Rightarrow>
                if startswith (c # s) ''import'' \<and> space_first (drop 6 (c # s))
                then Some (drop 6 (c # s)) else None))"

function sub_from_import :: "bool \<Rightarrow> string \<Rightarrow> string" where
  \<comment> \<open>\<open>re.sub(r'^from\s+.*import\s+.*$', '', text, flags=re.MULTILINE)\<close>\<close>
  "sub_from_import bol [] = []"
| "sub_from_import bol (c # s) =
     (if bol \<and> startswith (c # s) ''from'' \<and> space_first (drop 4 (c # s)) then
        (case find_last_import (dropWhile is_space (drop 4 (c # s))) of
           Some after \<Rightarrow>
             sub_from_import False (dropWhile (\<lambda>x. x \<noteq> CHR 0x0A) (dropWhile is_space after))
         | None \<Rightarrow> c # sub_from_import (c = CHR 0x0A) s)
      else c # sub_from_import (c = CHR 0x0A) s)"
  by pat_completeness auto
termination
proof (relation "measure (\<lambda>(bol, s). length s)")
  have shorter: "length a \<le> length t" if "find_last_import t = Some a" for t a
    using that
    by (induction t) (auto split: if_splits option.splits)
  fix bol :: bool and c :: char and s after :: string
  assume "find_last_import (dropWhile is_space (drop 4 (c # s))) = Some after"
  then have "length after \<le> length (dropWhile is_space (drop 4 (c # s)))"
    by (rule shorter)
  also have "\<dots> \<le> length (drop 4 (c # s))"
    by (rule length_dropWhile_le)
  also have "\<dots> < length (c # s)"
    by simp
  finally have "length after < length (c # s)" .
  moreover have "length (dropWhile (\<lambda>x. x \<noteq> CHR 0x0A) (dropWhile is_space after)) \<le> length after"
    by (meson length_dropWhile_le order_trans)
  ultimately show "((False, dropWhile (\<lambda>x. x \<noteq> CHR 0x0A) (dropWhile is_space after)), (bol, c # s))
                     \<in> measure (\<lambda>(bol, s). length s)"
    by simp
qed auto

definition combined_flask :: "string \<Rightarrow> string \<Rightarrow> string" where
  \<comment> \<open>the f-string of the Flask branch\<close>
  "combined_flask filtered_functions tests_text =
     ''\<newline>import pytest\<newline>from flask import Flask, request\<newline>\<newline>app = Flask(__name__)\<newline>''
     @ filtered_functions
     @ ''\<newline>\<newline>@pytest.fixture\<newline>def client():\<newline>    app.config[''
     @ [CHR 0x27] @ ''TESTING'' @ [CHR 0x27]
     @ ''] = True\<newline>    with app.test_client() as client:\<newline>        yield client\<newline>\<newline>''
     @ tests_text @ ''\<newline>''"

definition combined_generic :: "string \<Rightarrow> string \<Rightarrow> string" where
  \<comment> \<open>the f-string of the other branch\<close>
  "combined_generic filtered_functions tests_text =
     ''\<newline>'' @ filtered_functions @ ''\<newline>\<newline>'' @ tests_text @ ''\<newline>''"

definition combiner_node :: "library \<Rightarrow> GraphState \<Rightarrow> GraphState" where
  "combiner_node lib state =
     (let fw = framework state;
          filtered0 = extract_user_functions lib (user_functions state) (detected_functions state);
          filtered1 = sub_import True filtered0;
          filtered_functions = sub_from_import True filtered1;
          combined = (if fw = ''flask'' then combined_flask filtered_functions (test_code state)
                      else combined_generic filtered_functions (test_code state))
      in state\<lparr>combined_code := combined,
               history := history state @
                 [\<lparr>entry_iteration = None, agent = ''combiner'',
                   action = ''Combined code for '' @ fw @ '' framework.''\<rparr>]\<rparr>)"

section \<open>Execution Adapter\<close>

definition written_file :: "file_content option \<Rightarrow> file_content option \<Rightarrow> file_content option" where
  \<comment> \<open>the report file after a run: what the run wrote, else what was there before\<close>
  "written_file existing written = (case written of None \<Rightarrow> existing | Some f \<Rightarrow> Some f)"

definition run_pytest_json :: "world \<Rightarrow> (int \<times> report option \<times> string \<times> string) \<times> world" where
  \<comment> \<open>\<open>src/graph/nodes.py\<close>: the report file is removed first; \<open>except Exception\<close> covers
      \<open>subprocess.run\<close> and \<open>json.load\<close>\<close>
  "run_pytest_json w =
     (let w1 = w\<lparr>report_json := None\<rparr>;
          proc = pytest w1 (pytest_calls w1);
          w2 = w1\<lparr>pytest_calls := Suc (pytest_calls w1)\<rparr>
      in (case proc of
            Raised e written \<Rightarrow>
              ((- 1, None, [], e), w2\<lparr>report_json := written_file (report_json w2) written\<rparr>)
          | Completed returncode out err written \<Rightarrow>
              (let w3 = w2\<lparr>report_json := written_file (report_json w2) written\<rparr>
               in (case report_json w3 of
                     None \<Rightarrow> ((returncode, None, out, err), w3)
                   | Some (Malformed e) \<Rightarrow> ((- 1, None, [], e), w3)
                   | Some (Wellformed r) \<Rightarrow> ((returncode, Some r, out, err), w3)))))"

definition run_pytest_json_v2 :: "world \<Rightarrow> (int \<times> report option \<times> string \<times> string) \<times> world" where
  \<comment> \<open>\<open>Version2.py\<close>: the same but for the removal of the report file\<close>
  "run_pytest_json_v2 w =
     (let proc = pytest w (pytest_calls w);
          w2 = w\<lparr>pytest_calls := Suc (pytest_calls w)\<rparr>
      in (case proc of
            Raised e written \<Rightarrow>
              ((- 1, None, [], e), w2\<lparr>report_json := written_file (report_json w2) written\<rparr>)
          | Completed returncode out err written \<Rightarrow>
              (let w3 = w2\<lparr>report_json := written_file (report_json w2) written\<rparr>
               in (case report_json w3 of
                     None \<Rightarrow> ((returncode, None, out, err), w3)
                   | Some (Malformed e) \<Rightarrow> ((- 1, None, [], e), w3)
                   | Some (Wellformed r) \<Rightarrow> ((returncode, Some r, out, err), w3)))))"

definition run_pytest_json_v1 ::
  "world \<Rightarrow> error + ((bool \<times> report option \<times> string \<times> string) \<times> world)" where
  \<comment> \<open>\<open>Version1.py\<close>: no removal; \<open>subprocess.run\<close> is outside any \<open>try\<close>; only
      \<open>json.load\<close> is guarded\<close>
  "run_pytest_json_v1 w =
     (let proc = pytest w (pytest_calls w);
          w2 = w\<lparr>pytest_calls := Suc (pytest_calls w)\<rparr>
      in (case proc of
            Raised e written \<Rightarrow> Inl (SubprocessError e)
          | Completed returncode out err written \<Rightarrow>
              (let w3 = w2\<lparr>report_json := written_file (report_json w2) written\<rparr>
               in (case report_json w3 of
                     None \<Rightarrow> Inr ((returncode = 0, None, out, err), w3)
                   | Some (Malformed e) \<Rightarrow> Inr ((returncode = 0, None, out, err), w3)
                   | Some (Wellformed r) \<Rightarrow> Inr ((returncode = 0, Some r, out, err), w3)))))"

definition summary_of :: "report option \<Rightarrow> (string \<times> int) list" where
  \<comment> \<open>\<open>report.get("summary", {}) if report else {}\<close>\<close>
  "summary_of r =
     (case r of
        None \<Rightarrow> []
      | Some rep \<Rightarrow> (case summary rep of None \<Rightarrow> [] | Some d \<Rightarrow> d))"

definition iteration_entry :: "int \<Rightarrow> (string \<times> int) list \<Rightarrow> iteration_record" where
  "iteration_entry i d =
     \<lparr>at_iteration = i,
      collected = dict_get d ''collected'' 0,
      passed = dict_get d ''passed'' 0,
      failed = dict_get d ''failed'' 0,
      errors = dict_get d ''errors'' 0\<rparr>"

definition execution_node :: "GraphState \<times> world \<Rightarrow> GraphState \<times> world" where
  "execution_node sw =
     (let state = fst sw;
          w0 = (snd sw)\<lparr>test_file := Some (''test_combined.py'', combined_code state)\<rparr>;
          ((rc, rep, out, err), w1) = run_pytest_json w0;
          state1 = state\<lparr>return_code := rc,
                          report := (case rep of None \<Rightarrow> empty_report | Some r \<Rightarrow> r),
                          pytest_output := out,
                          pytest_stderr := err\<rparr>;
          state2 = state1\<lparr>iteration_results := iteration_results state1 @
                            [iteration_entry (iteration state1) (summary_of rep)]\<rparr>;
          state3 = state2\<lparr>history := history state2 @
                            [\<lparr>entry_iteration = None, agent = ''executor'',
                              action = ''Executed tests. Return code: '' @ str_int rc @ ''.''\<rparr>]\<rparr>
      in (state3, w1))"

definition execution_node_v2 :: "GraphState \<times> world \<Rightarrow> GraphState \<times> world" where
  "execution_node_v2 sw =
     (let state = fst sw;
          w0 = (snd sw)\<lparr>test_file := Some (''test_generated.py'', test_code state)\<rparr>;
          ((rc, rep, out, err), w1) = run_pytest_json_v2 w0;
          state1 = state\<lparr>return_code := rc,
                          report := (case rep of None \<Rightarrow> empty_report | Some r \<Rightarrow> r),
                          pytest_output := out,
                          pytest_stderr := err\<rparr>;
          state2 = state1\<lparr>history := history state1 @
                            [\<lparr>entry_iteration = Some (iteration state1), agent = ''executor'',
                              action = ''Executed tests - Return code: '' @ str_int rc\<rparr>]\<rparr>;
          state3 = state2\<lparr>iteration_results := iteration_results state2 @
                            [iteration_entry (iteration state2) (summary_of rep)]\<rparr>
      in (state3, w1))"

section \<open>The nodes of the framework-aware variant\<close>

definition function_detector_node :: "library \<Rightarrow> GraphState \<Rightarrow> GraphState" where
  "function_detector_node lib state =
     (let state0 = state\<lparr>history := history state @
                     [\<lparr>entry_iteration = None, agent = ''detector'',
                       action = ''Starting function detection.''\<rparr>]\<rparr>;
          functions_from_readme = extract_functions_from_readme lib (readme_content state0);
          functions_from_code = extract_functions_from_python_file lib (user_functions state0);
          state1 = state0\<lparr>framework := detect_framework (user_functions state0)\<rparr>;
          (functions, act) =
            (if functions_from_readme \<noteq> [] then
               (functions_from_readme,
                ''Detected '' @ str_int (int (length functions_from_readme))
                  @ '' functions from README.'')
             else if functions_from_code \<noteq> [] then
               (functions_from_code,
                ''No functions in README, but found ''
                  @ str_int (int (length functions_from_code)) @ '' in code.'')
             else ([], ''No functions detected in either README or code.''))
      in state1\<lparr>detected_functions := functions,
                num_functions := int (length functions),
                history := history state1 @
                  [\<lparr>entry_iteration = None, agent = ''detector'', action = act\<rparr>]\<rparr>)"

definition test_generator_node :: "GraphState \<times> world \<Rightarrow> GraphState \<times> world" where
  "test_generator_node sw =
     (let state = fst sw; w = snd sw;
          response = llm_generator w (generator_calls w);
          w1 = w\<lparr>generator_calls := Suc (generator_calls w)\<rparr>;
          state1 = state\<lparr>test_code := extract_code response\<rparr>
      in (state1\<lparr>history := history state1 @
                   [\<lparr>entry_iteration = None, agent = ''generator'',
                     action = ''Generated '' @ str_int (num_functions state1)
                       @ '' test functions for '' @ framework state1 @ '' framework.''\<rparr>]\<rparr>,
          w1))"

definition critic_node :: "library \<Rightarrow> GraphState \<times> world \<Rightarrow> error + GraphState \<times> world" where
  \<comment> \<open>the list \<open>failed_tests\<close> goes into the prompt only\<close>
  "critic_node lib sw =
     (let state = fst sw; w = snd sw;
          d = summary_of (Some (report state));
          n_collected = dict_get d ''collected'' 0;
          n_passed = dict_get d ''passed'' 0
      in if n_collected > 0 \<and> n_passed = n_collected then
           Inr (state\<lparr>status := ''success'',
                       feedback := ''All tests passed successfully.'',
                       history := history state @
                         [\<lparr>entry_iteration = None, agent = ''critic'',
                           action = ''SUCCESS - '' @ str_int n_passed @ ''/''
                             @ str_int n_collected @ '' tests passed.''\<rparr>]\<rparr>, w)
         else
           (let response = llm_critic w (critic_calls w);
                w1 = w\<lparr>critic_calls := Suc (critic_calls w)\<rparr>
            in (case json_loads lib response of
                  NonObject \<Rightarrow> Inl AttributeError
                | r \<Rightarrow>
                    (let result =
                           (case r of
                              Payload p \<Rightarrow> p
                            | other \<Rightarrow> [(''status'', ''needs_fix''),
                                        (''feedback'', ''Critic response was not valid JSON.'')]);
                         state1 = state\<lparr>status := dict_get result ''status'' ''needs_fix'',
                                         feedback := dict_get result ''feedback''
                                                       ''No feedback provided.''\<rparr>;
                         state2 = state1\<lparr>history := history state1 @
                                    [\<lparr>entry_iteration = None, agent = ''critic'',
                                      action = ''Analysis: '' @ status state1 @ ''. Feedback: ''
                                        @ feedback state1\<rparr>]\<rparr>
                     in if status state2 = ''needs_fix''
                        then Inr (state2\<lparr>iteration := iteration state2 + 1\<rparr>, w1)
                        else Inr (state2, w1)))))"

definition reporter_node :: "GraphState \<times> world \<Rightarrow> GraphState \<times> world" where
  "reporter_node sw =
     (let state = fst sw; w = snd sw;
          response = llm_reporter w (reporter_calls w);
          w1 = w\<lparr>reporter_calls := Suc (reporter_calls w)\<rparr>
      in (state\<lparr>final_message := response,
                 history := history state @
                   [\<lparr>entry_iteration = None, agent = ''reporter'',
                     action = ''Final report generated.''\<rparr>]\<rparr>,
          w1))"

definition should_continue :: "GraphState \<Rightarrow> string \<times> GraphState" where
  \<comment> \<open>\<open>src/graph/builder.py\<close>: the route, and the argument after the write to \<open>status\<close>\<close>
  "should_continue state =
     (if status state = ''success'' then (''reporter'', state)
      else if iteration state > max_iterations state
      then (''reporter'', state\<lparr>status := ''max_iterations''\<rparr>)
      else if status state = ''needs_fix'' then (''generate'', state)
      else (''reporter'', state))"

section \<open>The nodes of \<open>Version2.py\<close>\<close>

definition function_detector_node_v2 :: "library \<Rightarrow> GraphState \<Rightarrow> GraphState" where
  "function_detector_node_v2 lib state =
     (let functions = extract_functions_from_readme_v2 lib (readme_content state)
      in state\<lparr>detected_functions := functions,
               num_functions := int (length functions),
               history := history state @
                 [\<lparr>entry_iteration = Some (iteration state), agent = ''detector'',
                   action = ''Detected '' @ str_int (int (length functions)) @ '' functions: ''
                     @ join '', '' functions\<rparr>]\<rparr>)"

definition generator_node_v2 :: "GraphState \<times> world \<Rightarrow> GraphState \<times> world" where
  "generator_node_v2 sw =
     (let state = fst sw; w = snd sw;
          response = llm_generator w (generator_calls w);
          w1 = w\<lparr>generator_calls := Suc (generator_calls w)\<rparr>;
          state1 = state\<lparr>test_code := extract_code response\<rparr>
      in (state1\<lparr>history := history state1 @
                   [\<lparr>entry_iteration = Some (iteration state1), agent = ''generator'',
                     action = ''Generated '' @ str_int (num_functions state1)
                       @ '' test functions''\<rparr>]\<rparr>,
          w1))"

definition brace_region :: "string \<Rightarrow> string option" where
  \<comment> \<open>\<open>re.search(r'\{.*\}', text, re.DOTALL)\<close>: from the first opening brace to the last
      closing brace after it\<close>
  "brace_region text =
     (let t = dropWhile (\<lambda>c. c \<noteq> CHR ''{'') text;
          u = rev (dropWhile (\<lambda>c. c \<noteq> CHR ''}'') (rev t))
      in if u = [] then None else Some u)"

definition critic_node_v2 :: "library \<Rightarrow> GraphState \<times> world \<Rightarrow> error + GraphState \<times> world" where
  "critic_node_v2 lib sw =
     (let state = fst sw; w = snd sw;
          d = summary_of (Some (report state));
          n_collected = dict_get d ''collected'' 0;
          n_passed = dict_get d ''passed'' 0;
          n_failed = dict_get d ''failed'' 0;
          n_errors = dict_get d ''errors'' 0
      in if n_collected = num_functions state \<and> n_passed = n_collected
            \<and> n_failed = 0 \<and> n_errors = 0 then
           Inr (state\<lparr>status := ''success'',
                       feedback := ''All tests passed successfully'',
                       history := history state @
                         [\<lparr>entry_iteration = Some (iteration state), agent = ''critic'',
                           action = ''Analysis: success - '' @ str_int n_passed @ ''/''
                             @ str_int n_collected @ '' tests passed''\<rparr>]\<rparr>, w)
         else
           (let response = llm_critic w (critic_calls w);
                w1 = w\<lparr>critic_calls := Suc (critic_calls w)\<rparr>;
                r = (case brace_region response of
                       None \<Rightarrow> Payload [(''status'', ''test_error''),
                                        (''feedback'', ''Could not parse critic response'')]
                     | Some json_match \<Rightarrow>
                         (case json_loads lib json_match of
                            JSONDecodeError \<Rightarrow>
                              Payload [(''status'', ''test_error''),
                                       (''feedback'', ''Error parsing critic response'')]
                          | other \<Rightarrow> other))
            in (case r of
                  Payload result \<Rightarrow>
                    (let state1 = state\<lparr>status := dict_get result ''status'' ''unknown'',
                                         feedback := dict_get result ''feedback''
                                                       (dict_get result ''message'' [])\<rparr>;
                         state2 = state1\<lparr>history := history state1 @
                                    [\<lparr>entry_iteration = Some (iteration state1), agent = ''critic'',
                                      action = ''Analysis: '' @ status state1\<rparr>]\<rparr>
                     in if status state2 \<in> set [''test_error'', ''incomplete'']
                        then Inr (state2\<lparr>iteration := iteration state2 + 1\<rparr>, w1)
                        else Inr (state2, w1))
                | other \<Rightarrow> Inl AttributeError)))"

definition reporter_node_v2 :: "GraphState \<times> world \<Rightarrow> GraphState \<times> world" where
  "reporter_node_v2 sw =
     (let state = fst sw; w = snd sw;
          response = llm_reporter w (reporter_calls w);
          w1 = w\<lparr>reporter_calls := Suc (reporter_calls w)\<rparr>;
          clean_response = strip (strip_think response)
      in (state\<lparr>final_message := clean_response,
                 history := history state @
                   [\<lparr>entry_iteration = Some (iteration state), agent = ''reporter'',
                     action = ''Generated final report''\<rparr>]\<rparr>,
          w1))"

definition should_continue_v2 :: "GraphState \<Rightarrow> string \<times> GraphState" where
  "should_continue_v2 state =
     (if status state = ''success'' then (''reporter'', state)
      else if status state = ''source_error'' then (''reporter'', state)
      else if iteration state > max_iterations state
      then (''reporter'',
            state\<lparr>status := ''max_iterations'',
                   feedback := ''Reached maximum iterations ('' @ str_int (max_iterations state)
                                 @ '')''\<rparr>)
      else if status state \<in> set [''test_error'', ''incomplete''] then (''generate'', state)
      else (''reporter'', state))"

section \<open>Loop Controller\<close>

text \<open>
  \<open>build_graph\<close> wires the nodes: \<open>detect\<close>, then \<open>generate\<close>, \<open>combine\<close>,
  \<open>execute\<close> and \<open>critic\<close> in a row, then the conditional edge \<open>should_continue\<close>,
  which leads back to \<open>generate\<close> or on to \<open>reporter\<close> and the end. The graph library
  itself is not code of the repository: a run is modelled as the nodes called along
  the edges, each on the state the one before returned. \<open>should_continue\<close> is the
  function of the conditional edge and not a node: the library takes the route it
  returns and drops what it writes to its argument, so the next node gets the state
  the critic returned. An exception in a node ends the run. The library's own limit on
  the number of steps of a run is not modelled.

  \<open>src/graph/builder.py\<close> imports the nodes from \<open>src/graph/nodes.py\<close> before it defines
  the three models, and \<open>src/graph/nodes.py\<close> imports the three models from
  \<open>src/graph/builder.py\<close>: as the two files are, importing either fails and
  \<open>main_graph\<close> is never built. \<open>run_loop\<close> below is the loop \<open>build_graph\<close> wires, what a
  run does once the models are defined before the nodes are imported. \<open>Version2.py\<close>
  wires the same loop in one file.
\<close>

definition critique :: "library \<Rightarrow> GraphState \<times> world \<Rightarrow> error + GraphState \<times> world" where
  \<comment> \<open>one attempt: \<open>generate\<close>, \<open>combine\<close>, \<open>execute\<close>, \<open>critic\<close>\<close>
  "critique lib sw =
     (let sw1 = test_generator_node sw;
          sw2 = (combiner_node lib (fst sw1), snd sw1);
          sw3 = execution_node sw2
      in critic_node lib sw3)"

definition cycle :: "library \<Rightarrow> GraphState \<times> world \<Rightarrow> error + string \<times> GraphState \<times> world" where
  \<comment> \<open>one attempt and the route the conditional edge chooses after it; the state goes
      on as the critic returned it\<close>
  "cycle lib sw =
     (case critique lib sw of
        Inl e \<Rightarrow> Inl e
      | Inr sw4 \<Rightarrow> Inr (fst (should_continue (fst sw4)), fst sw4, snd sw4))"

function run_loop :: "library \<Rightarrow> GraphState \<times> world \<Rightarrow> error + GraphState \<times> world" where
  "run_loop lib sw =
     (case cycle lib sw of
        Inl e \<Rightarrow> Inl e
      | Inr (route, state, w) \<Rightarrow>
          if route = ''generate'' then run_loop lib (state, w)
          else Inr (reporter_node (state, w)))"
  by pat_completeness auto
termination
proof (relation "measure (\<lambda>(lib, sw). nat (max_iterations (fst sw) + 1 - iteration (fst sw)))")
  fix lib :: library and sw :: "GraphState \<times> world" and x route y state w
  assume c: "cycle lib sw = Inr x" and x: "(route, y) = x" and y: "(state, w) = y"
    and r: "route = ''generate''"
  define sw3 where "sw3 = execution_node
    (combiner_node lib (fst (test_generator_node sw)), snd (test_generator_node sw))"
  have i3: "iteration (fst sw3) = iteration (fst sw)
            \<and> max_iterations (fst sw3) = max_iterations (fst sw)"
    by (simp add: sw3_def execution_node_def combiner_node_def test_generator_node_def Let_def
          split: prod.splits)
  obtain sw4 where c4: "critic_node lib sw3 = Inr sw4"
    and sc: "fst (should_continue (fst sw4)) = ''generate''" and st: "state = fst sw4"
    using c x y r
    by (auto simp: cycle_def critique_def Let_def sw3_def split: sum.splits)
  have "fst (should_continue (fst sw4)) = ''generate'' \<longrightarrow>
          status (fst sw4) = ''needs_fix'' \<and> \<not> iteration (fst sw4) > max_iterations (fst sw4)"
    by (simp add: should_continue_def)
  then have s4: "status (fst sw4) = ''needs_fix'' \<and> \<not> iteration (fst sw4) > max_iterations (fst sw4)
            \<and> state = fst sw4"
    using sc st by simp
  have "case critic_node lib sw3 of
          Inl e \<Rightarrow> True
        | Inr sw4 \<Rightarrow>
            max_iterations (fst sw4) = max_iterations (fst sw3)
            \<and> (status (fst sw4) = ''needs_fix'' \<longrightarrow>
                 iteration (fst sw4) = iteration (fst sw3) + 1)"
    by (simp add: critic_node_def Let_def split: parsed.split)
  then have i4: "iteration (fst sw4) = iteration (fst sw3) + 1
            \<and> max_iterations (fst sw4) = max_iterations (fst sw3)"
    using c4 s4 by simp
  show "((lib, state, w), lib, sw)
          \<in> measure (\<lambda>(lib, sw). nat (max_iterations (fst sw) + 1 - iteration (fst sw)))"
    using i3 i4 s4 by simp
qed simp

definition initial_state :: "string \<Rightarrow> string \<Rightarrow> int \<Rightarrow> GraphState" where
  \<comment> \<open>\<open>initial_state\<close> of \<open>src/main.py\<close> and of \<open>app.py\<close>\<close>
  "initial_state readme code max_it =
     \<lparr>readme_content = readme, user_functions = code, detected_functions = [],
      num_functions = 0, iteration_results = [], test_code = [], combined_code = [],
      pytest_output = [], pytest_stderr = [], return_code = - 1, report = empty_report,
      iteration = 1, max_iterations = max_it, feedback = [], status = [],
      final_message = [], history = [], framework = ''generic'', previous_errors = []\<rparr>"

definition critique_v2 :: "library \<Rightarrow> GraphState \<times> world \<Rightarrow> error + GraphState \<times> world" where
  \<comment> \<open>\<open>Version2.py\<close>, one attempt: \<open>generate\<close>, \<open>execute\<close>, \<open>critic\<close>\<close>
  "critique_v2 lib sw = critic_node_v2 lib (execution_node_v2 (generator_node_v2 sw))"

definition cycle_v2 :: "library \<Rightarrow> GraphState \<times> world \<Rightarrow> error + string \<times> GraphState \<times> world" where
  \<comment> \<open>the same in \<open>Version2.py\<close>: what \<open>should_continue\<close> writes to \<open>status\<close> and
      \<open>feedback\<close> is dropped\<close>
  "cycle_v2 lib sw =
     (case critique_v2 lib sw of
        Inl e \<Rightarrow> Inl e
      | Inr sw4 \<Rightarrow> Inr (fst (should_continue_v2 (fst sw4)), fst sw4, snd sw4))"

function run_loop_v2 :: "library \<Rightarrow> GraphState \<times> world \<Rightarrow> error + GraphState \<times> world" where
  "run_loop_v2 lib sw =
     (case cycle_v2 lib sw of
        Inl e \<Rightarrow> Inl e
      | Inr (route, state, w) \<Rightarrow>
          if route = ''generate'' then run_loop_v2 lib (state, w)
          else Inr (reporter_node_v2 (state, w)))"
  by pat_completeness auto
termination
proof (relation "measure (\<lambda>(lib, sw). nat (max_iterations (fst sw) + 1 - iteration (fst sw)))")
  fix lib :: library and sw :: "GraphState \<times> world" and x route y state w
  assume c: "cycle_v2 lib sw = Inr x" and x: "(route, y) = x" and y: "(state, w) = y"
    and r: "route = ''generate''"
  define sw3 where "sw3 = execution_node_v2 (generator_node_v2 sw)"
  have i3: "iteration (fst sw3) = iteration (fst sw)
            \<and> max_iterations (fst sw3) = max_iterations (fst sw)"
    by (simp add: sw3_def execution_node_v2_def generator_node_v2_def Let_def
          split: prod.splits)
  obtain sw4 where c4: "critic_node_v2 lib sw3 = Inr sw4"
    and sc: "fst (should_continue_v2 (fst sw4)) = ''generate''" and st: "state = fst sw4"
    using c x y r
    by (auto simp: cycle_v2_def critique_v2_def Let_def sw3_def split: sum.splits)
  have "fst (should_continue_v2 (fst sw4)) = ''generate'' \<longrightarrow>
          status (fst sw4) \<in> set [''test_error'', ''incomplete'']
          \<and> \<not> iteration (fst sw4) > max_iterations (fst sw4)"
    by (simp add: should_continue_v2_def)
  then have s4: "status (fst sw4) \<in> set [''test_error'', ''incomplete'']
            \<and> \<not> iteration (fst sw4) > max_iterations (fst sw4) \<and> state = fst sw4"
    using sc st by simp
  have "case critic_node_v2 lib sw3 of
          Inl e \<Rightarrow> True
        | Inr sw4 \<Rightarrow>
            max_iterations (fst sw4) = max_iterations (fst sw3)
            \<and> (status (fst sw4) \<in> set [''test_error'', ''incomplete''] \<longrightarrow>
                 iteration (fst sw4) = iteration (fst sw3) + 1)"
    by (simp add: critic_node_v2_def Let_def split: parsed.split option.split)
  then have i4: "iteration (fst sw4) = iteration (fst sw3) + 1
            \<and> max_iterations (fst sw4) = max_iterations (fst sw3)"
    using c4 s4 by auto
  show "((lib, state, w), lib, sw)
          \<in> measure (\<lambda>(lib, sw). nat (max_iterations (fst sw) + 1 - iteration (fst sw)))"
    using i3 i4 s4 by simp
qed simp

definition build_graph_v2 :: "library \<Rightarrow> GraphState \<times> world \<Rightarrow> error + GraphState \<times> world" where
  \<comment> \<open>a whole run of the graph of \<open>Version2.py\<close>\<close>
  "build_graph_v2 lib sw = run_loop_v2 lib (function_detector_node_v2 lib (fst sw), snd sw)"

text \<open>
  The state after the first \<open>k\<close> attempts of a run, as long as none raises: what the
  critic returned after each. The run goes through them for as long as the
  conditional edge leads back to \<open>generate\<close>.
\<close>

fun attempts :: "nat \<Rightarrow> library \<Rightarrow> GraphState \<times> world \<Rightarrow> error + GraphState \<times> world" where
  "attempts 0 lib sw = Inr sw"
| "attempts (Suc k) lib sw =
     (case attempts k lib sw of
        Inl e \<Rightarrow> Inl e
      | Inr sw' \<Rightarrow> critique lib sw')"

fun attempts_v2 :: "nat \<Rightarrow> library \<Rightarrow> GraphState \<times> world \<Rightarrow> error + GraphState \<times> world" where
  "attempts_v2 0 lib sw = Inr sw"
| "attempts_v2 (Suc k) lib sw =
     (case attempts_v2 k lib sw of
        Inl e \<Rightarrow> Inl e
      | Inr sw' \<Rightarrow> critique_v2 lib sw')"

definition verdict_after :: "(error + GraphState \<times> world) \<Rightarrow> string option" where
  \<comment> \<open>the verdict an attempt ended with, \<open>None\<close> when it raised\<close>
  "verdict_after r = (case r of Inl e \<Rightarrow> None | Inr sw \<Rightarrow> Some (status (fst sw)))"

section \<open>Example inputs\<close>

definition no_library :: library where
  \<comment> \<open>no pattern matches, no text parses\<close>
  "no_library =
     \<lparr>re_findall = (\<lambda>p text. []), ast_parse = (\<lambda>text. None),
      json_loads = (\<lambda>text. JSONDecodeError)\<rparr>"

definition quiet_world :: world where
  \<comment> \<open>every model replies \<open>ok\<close>, every test run ends with exit code 1 and writes no report\<close>
  "quiet_world =
     \<lparr>llm_generator = (\<lambda>k. ''ok''), llm_critic = (\<lambda>k. ''ok''), llm_reporter = (\<lambda>k. ''ok''),
      pytest = (\<lambda>k. Completed 1 [] [] None),
      generator_calls = 0, critic_calls = 0, reporter_calls = 0, pytest_calls = 0,
      report_json = None, test_file = None\<rparr>"

definition sample_library :: library where
  \<comment> \<open>two patterns find names in any text; of JSON texts only the empty list is known\<close>
  "sample_library =
     \<lparr>re_findall = (\<lambda>p text. if p = Pattern1
                               then [''add'', ''_hidden'', ''Return'', ''add'', ''sub'']
                               else if p = Pattern3 then [''sub'', ''mul''] else []),
      ast_parse = (\<lambda>text. None),
      json_loads = (\<lambda>text. if text = ''[]'' then NonObject else JSONDecodeError)\<rparr>"

definition error_of :: "(error + GraphState \<times> world) \<Rightarrow> error option" where
  \<comment> \<open>the exception a step raised, \<open>None\<close> when it returned\<close>
  "error_of r = (case r of Inl e \<Rightarrow> Some e | Inr sw \<Rightarrow> None)"

definition critic_calls_after :: "(error + GraphState \<times> world) \<Rightarrow> nat option" where
  \<comment> \<open>the calls of the critic's model made when a step has returned, \<open>None\<close> when it raised\<close>
  "critic_calls_after r = (case r of Inl e \<Rightarrow> None | Inr sw \<Rightarrow> Some (critic_calls (snd sw)))"

definition all_passed_state :: GraphState where
  \<comment> \<open>two functions expected, two tests collected, both passed\<close>
  "all_passed_state =
     (initial_state [] [] 3)
       \<lparr>num_functions := 2,
        report := \<lparr>summary = Some [(''collected'', 2), (''passed'', 2), (''failed'', 0),
                                   (''errors'', 0)],
                  tests = None\<rparr>\<rparr>"

definition nothing_collected_state :: GraphState where
  \<comment> \<open>no function expected, no test collected\<close>
  "nothing_collected_state =
     (initial_state [] [] 3)
       \<lparr>report := \<lparr>summary = Some [(''collected'', 0), (''passed'', 0), (''failed'', 0),
                                   (''errors'', 0)],
                  tests = None\<rparr>\<rparr>"

definition list_reply_world :: world where
  \<comment> \<open>the critic's model replies with the JSON text of an empty list\<close>
  "list_reply_world = quiet_world\<lparr>llm_critic := (\<lambda>k. ''[]'')\<rparr>"

definition timeout_world :: world where
  \<comment> \<open>the same, and every test run times out\<close>
  "timeout_world = list_reply_world\<lparr>pytest := (\<lambda>k. Raised ''timed out after 60 seconds'' None)\<rparr>"

definition stale_report :: report where
  "stale_report = \<lparr>summary = Some [(''collected'', 1), (''passed'', 1)], tests = None\<rparr>"

definition stale_world :: world where
  \<comment> \<open>an earlier run left a report; the test runner now ends with a usage error and
      writes none\<close>
  "stale_world =
     quiet_world\<lparr>pytest := (\<lambda>k. Completed 4 [] ''usage error'' None),
                 report_json := Some (Wellformed stale_report)\<rparr>"

definition needs_fix_library :: library where
  \<comment> \<open>every JSON text is an object with verdict \<open>needs_fix\<close>\<close>
  "needs_fix_library =
     sample_library\<lparr>json_loads := (\<lambda>text. Payload [(''status'', ''needs_fix'')])\<rparr>"

definition object_reply_world :: world where
  \<comment> \<open>the critic's model replies with a JSON object\<close>
  "object_reply_world = quiet_world\<lparr>llm_critic := (\<lambda>k. ''{}'')\<rparr>"

section \<open>Loop Controller: the routing rule\<close>

text \<open>
  What \<open>should_continue\<close> returns and what it writes to its argument. After the critic,
  the framework-aware variant goes back to generation exactly when the verdict is
  \<open>needs_fix\<close> and the iteration counter is at most \<open>max_iterations\<close>; \<open>Version2.py\<close>
  exactly when the verdict is \<open>test_error\<close> or \<open>incomplete\<close> and the counter is at most
  \<open>max_iterations\<close>. Every other case goes to the reporter, any verdict the router does
  not know included, and the bound check comes before the retry verdicts. The function
  writes \<open>max_iterations\<close> to the \<open>status\<close> of its argument exactly when the counter
  exceeds \<open>max_iterations\<close> and the verdict is not \<open>success\<close> (nor \<open>source_error\<close> in
  \<open>Version2.py\<close>, which also writes the feedback).
\<close>

lemma should_continue_routes:
  "fst (should_continue state) =
     (if status state = ''needs_fix'' \<and> iteration state \<le> max_iterations state
      then ''generate'' else ''reporter'')
   \<and> snd (should_continue state) =
     (if status state \<noteq> ''success'' \<and> iteration state > max_iterations state
      then state\<lparr>status := ''max_iterations''\<rparr> else state)
   \<and> fst (should_continue_v2 state) =
     (if status state \<in> set [''test_error'', ''incomplete'']
         \<and> iteration state \<le> max_iterations state
      then ''generate'' else ''reporter'')
   \<and> snd (should_continue_v2 state) =
     (if status state \<notin> set [''success'', ''source_error'']
         \<and> iteration state > max_iterations state
      then state\<lparr>status := ''max_iterations'',
                  feedback := ''Reached maximum iterations ('' @ str_int (max_iterations state)
                                @ '')''\<rparr>
      else state)"
  by (simp add: should_continue_def should_continue_v2_def)

text \<open>
  In the framework-aware variant the verdict \<open>incomplete\<close> is no retry verdict: with
  iteration 1 and \<open>max_iterations\<close> 3 the route is not \<open>generate\<close>. With the verdict
  \<open>unknown\<close> the route is \<open>reporter\<close>, though the verdict is neither \<open>success\<close> nor
  \<open>source_error\<close> and the counter does not exceed the bound.
\<close>

lemma should_continue_other_verdicts:
  "\<not> ((fst (should_continue ((initial_state [] [] 3)\<lparr>status := ''incomplete''\<rparr>)) = ''generate'')
       = (status ((initial_state [] [] 3)\<lparr>status := ''incomplete''\<rparr>)
            \<in> set [''needs_fix'', ''incomplete'']
          \<and> iteration ((initial_state [] [] 3)\<lparr>status := ''incomplete''\<rparr>)
            \<le> max_iterations ((initial_state [] [] 3)\<lparr>status := ''incomplete''\<rparr>)))
   \<and> \<not> ((fst (should_continue ((initial_state [] [] 3)\<lparr>status := ''unknown''\<rparr>)) = ''reporter'')
       = (status ((initial_state [] [] 3)\<lparr>status := ''unknown''\<rparr>)
            \<in> set [''success'', ''source_error'']
          \<or> iteration ((initial_state [] [] 3)\<lparr>status := ''unknown''\<rparr>)
            > max_iterations ((initial_state [] [] 3)\<lparr>status := ''unknown''\<rparr>)))"
  by (simp add: should_continue_def initial_state_def)

text \<open>
  Claim C2 says that when the counter exceeds \<open>max_iterations\<close> the verdict is overwritten
  to \<open>max_iterations\<close> before reporting. \<open>should_continue\<close> makes that write to its own
  argument; it is the function of the conditional edge, so the write is dropped and the
  reporter gets the state with the verdict of the critic. With a budget of one attempt
  and a critic reply that is no JSON: after the attempt the counter is 2, the route is
  \<open>reporter\<close>, the routing function has written \<open>max_iterations\<close> to its argument, and
  the state that goes on, and the final state of the run, have the verdict \<open>needs_fix\<close>
  (\<open>test_error\<close> and the feedback of the critic in \<open>Version2.py\<close>).
\<close>

theorem overwrite_does_not_reach_reporter:
  "(case cycle sample_library
           (function_detector_node sample_library (initial_state [] [] 1), quiet_world) of
      Inl e \<Rightarrow> False
    | Inr (route, state, w) \<Rightarrow>
        route = ''reporter'' \<and> status state = ''needs_fix''
        \<and> iteration state = 2 \<and> max_iterations state = 1
        \<and> status (snd (should_continue state)) = ''max_iterations'')
   \<and> verdict_after (run_loop sample_library
         (function_detector_node sample_library (initial_state [] [] 1), quiet_world))
       = Some ''needs_fix''
   \<and> (case cycle_v2 sample_library
           (function_detector_node_v2 sample_library (initial_state [] [] 1), quiet_world) of
      Inl e \<Rightarrow> False
    | Inr (route, state, w) \<Rightarrow>
        route = ''reporter'' \<and> status state = ''test_error''
        \<and> feedback state = ''Could not parse critic response''
        \<and> iteration state = 2 \<and> max_iterations state = 1
        \<and> status (snd (should_continue_v2 state)) = ''max_iterations''
        \<and> feedback (snd (should_continue_v2 state)) = ''Reached maximum iterations (1)'')
   \<and> verdict_after (build_graph_v2 sample_library (initial_state [] [] 1, quiet_world))
       = Some ''test_error''"
proof -
  have a: "case cycle sample_library
           (function_detector_node sample_library (initial_state [] [] 1), quiet_world) of
      Inl e \<Rightarrow> False
    | Inr (route, state, w) \<Rightarrow>
        route = ''reporter'' \<and> status state = ''needs_fix''
        \<and> iteration state = 2 \<and> max_iterations state = 1
        \<and> status (snd (should_continue state)) = ''max_iterations''"
    by code_simp
  have b: "verdict_after (run_loop sample_library
         (function_detector_node sample_library (initial_state [] [] 1), quiet_world))
       = Some ''needs_fix''"
    by code_simp
  have c: "case cycle_v2 sample_library
           (function_detector_node_v2 sample_library (initial_state [] [] 1), quiet_world) of
      Inl e \<Rightarrow> False
    | Inr (route, state, w) \<Rightarrow>
        route = ''reporter'' \<and> status state = ''test_error''
        \<and> feedback state = ''Could not parse critic response''
        \<and> iteration state = 2 \<and> max_iterations state = 1
        \<and> status (snd (should_continue_v2 state)) = ''max_iterations''
        \<and> feedback (snd (should_continue_v2 state)) = ''Reached maximum iterations (1)''"
    by code_simp
  have d: "verdict_after (build_graph_v2 sample_library (initial_state [] [] 1, quiet_world))
       = Some ''test_error''"
    by code_simp
  show ?thesis
    by (intro conjI a b c d)
qed

section \<open>Function Extractor: which names the detector keeps\<close>

text \<open>
  Claim C10. In the framework-aware variant the detected list is the list extracted
  from the README whenever that list is not empty, whatever the companion source
  defines; the names of the source are used only when the README gives none. The
  framework tag is computed from the source alone.
\<close>

theorem readme_names_shadow_source_names:
  "detected_functions (function_detector_node lib state) =
     (if extract_functions_from_readme lib (readme_content state) \<noteq> []
      then extract_functions_from_readme lib (readme_content state)
      else extract_functions_from_python_file lib (user_functions state))
   \<and> num_functions (function_detector_node lib state) =
       int (length (detected_functions (function_detector_node lib state)))
   \<and> framework (function_detector_node lib state) = detect_framework (user_functions state)"
  by (simp add: function_detector_node_def Let_def)

section \<open>Function Extractor: the extracted name list\<close>

lemma unique_loop_distinct:
  "distinct acc \<Longrightarrow> set acc \<subseteq> seen \<Longrightarrow> distinct (unique_loop fs seen acc)"
  by (induction fs seen acc rule: unique_loop.induct) auto

lemma unique_loop_kept:
  "n \<in> set (unique_loop fs seen acc) \<Longrightarrow>
   n \<in> set acc \<or> (n \<in> set fs \<and> \<not> startswith n ''_'' \<and> lower n \<notin> set stopwords)"
  by (induction fs seen acc rule: unique_loop.induct) (auto split: if_splits)

text \<open>
  Claim C9. Whatever the patterns find in the text, the list of names has no repeated
  entry, no name that starts with an underscore and no name whose lower-case form is
  a stopword, and it has at most 20 entries in the framework-aware variant and at
  most 15 in \<open>Version2.py\<close>.
\<close>

theorem extracted_names_invariant:
  "distinct (extract_functions_from_readme lib readme)
   \<and> (\<forall>n \<in> set (extract_functions_from_readme lib readme).
         \<not> startswith n ''_'' \<and> lower n \<notin> set stopwords)
   \<and> length (extract_functions_from_readme lib readme) \<le> 20
   \<and> distinct (extract_functions_from_readme_v2 lib readme)
   \<and> (\<forall>n \<in> set (extract_functions_from_readme_v2 lib readme).
         \<not> startswith n ''_'' \<and> lower n \<notin> set stopwords)
   \<and> length (extract_functions_from_readme_v2 lib readme) \<le> 15"
proof -
  have d: "distinct (take k (unique_loop fs {} []))" for k fs
    by (rule distinct_take) (simp add: unique_loop_distinct)
  have f: "\<not> startswith n ''_'' \<and> lower n \<notin> set stopwords"
    if "n \<in> set (take k (unique_loop fs {} []))" for n k fs
    using unique_loop_kept [of n fs "{}" "[]"] in_set_takeD [OF that] by simp
  show ?thesis
    unfolding extract_functions_from_readme_def extract_functions_from_readme_v2_def Let_def
    using d f by (intro conjI ballI) simp_all
qed

theorem extracted_names_invariant_witness:
  "extract_functions_from_readme sample_library ''# calc'' = [''add'', ''sub'', ''mul'']
   \<and> distinct (extract_functions_from_readme sample_library ''# calc'')
   \<and> \<not> startswith ''add'' ''_'' \<and> lower ''add'' \<notin> set stopwords
   \<and> length (extract_functions_from_readme sample_library ''# calc'') \<le> 20
   \<and> length (extract_functions_from_readme_v2 sample_library ''# calc'') \<le> 15"
proof -
  have e: "extract_functions_from_readme sample_library ''# calc'' = [''add'', ''sub'', ''mul'']"
    by code_simp
  show ?thesis
    using extracted_names_invariant [of sample_library "''# calc''"] e by simp
qed

section \<open>Critic: the success fast path\<close>

text \<open>
  Claim C3, as the code has it. When the report's collected count and passed count
  are the same number \<open>n\<close>: in \<open>Version2.py\<close>, if \<open>n\<close> is the expected test count and
  the failed and error counts are zero, the critic returns \<open>success\<close> and leaves the
  world as it was, so the model is not called; in the framework-aware variant it
  does so whenever \<open>n > 0\<close>, whatever the expected count and the other counts are.
\<close>

theorem success_fast_path:
  assumes "dict_get (summary_of (Some (report state))) ''collected'' 0 = n"
    and "dict_get (summary_of (Some (report state))) ''passed'' 0 = n"
  shows "(n = num_functions state
          \<and> dict_get (summary_of (Some (report state))) ''failed'' 0 = 0
          \<and> dict_get (summary_of (Some (report state))) ''errors'' 0 = 0
          \<longrightarrow> (\<exists>state'. critic_node_v2 lib (state, w) = Inr (state', w)
                 \<and> status state' = ''success''))
       \<and> (n > 0
          \<longrightarrow> (\<exists>state'. critic_node lib (state, w) = Inr (state', w)
                 \<and> status state' = ''success''))"
  using assms by (simp add: critic_node_def critic_node_v2_def Let_def)

theorem success_fast_path_witness:
  "(\<exists>state'. critic_node_v2 no_library (all_passed_state, quiet_world) = Inr (state', quiet_world)
       \<and> status state' = ''success'')
   \<and> (\<exists>state'. critic_node no_library (all_passed_state, quiet_world) = Inr (state', quiet_world)
       \<and> status state' = ''success'')"
proof -
  have c: "dict_get (summary_of (Some (report all_passed_state))) ''collected'' 0 = 2"
    and p: "dict_get (summary_of (Some (report all_passed_state))) ''passed'' 0 = 2"
    and f: "dict_get (summary_of (Some (report all_passed_state))) ''failed'' 0 = 0"
    and e: "dict_get (summary_of (Some (report all_passed_state))) ''errors'' 0 = 0"
    and n: "num_functions all_passed_state = 2"
    by code_simp+
  show ?thesis
    using success_fast_path [OF c p, of no_library quiet_world] f e n by simp
qed

text \<open>
  Claim C3 as stated fails in the framework-aware variant when nothing is expected
  and nothing is collected: the counts are as the claim asks, yet the critic calls
  the model once and takes its verdict from the reply.
\<close>

theorem success_fast_path_counterexample:
  "dict_get (summary_of (Some (report nothing_collected_state))) ''collected'' 0
     = num_functions nothing_collected_state
   \<and> dict_get (summary_of (Some (report nothing_collected_state))) ''passed'' 0
     = dict_get (summary_of (Some (report nothing_collected_state))) ''collected'' 0
   \<and> dict_get (summary_of (Some (report nothing_collected_state))) ''failed'' 0 = 0
   \<and> dict_get (summary_of (Some (report nothing_collected_state))) ''errors'' 0 = 0
   \<and> verdict_after (critic_node no_library (nothing_collected_state, quiet_world))
       = Some ''needs_fix''
   \<and> critic_calls_after (critic_node no_library (nothing_collected_state, quiet_world))
       = Some (Suc (critic_calls quiet_world))"
  by code_simp

section \<open>Critic: a reply that is not a verdict payload\<close>

lemma critic_degrades_on_invalid_json:
  assumes "\<not> (dict_get (summary_of (Some (report state))) ''collected'' 0 > 0
             \<and> dict_get (summary_of (Some (report state))) ''passed'' 0
                 = dict_get (summary_of (Some (report state))) ''collected'' 0)"
    and "json_loads lib (llm_critic w (critic_calls w)) = JSONDecodeError"
  shows "\<exists>state'. critic_node lib (state, w) = Inr (state', w\<lparr>critic_calls := Suc (critic_calls w)\<rparr>)
           \<and> status state' = ''needs_fix''
           \<and> feedback state' = ''Critic response was not valid JSON.''
           \<and> iteration state' = iteration state + 1"
  using assms by (simp add: critic_node_def Let_def dict_get_def)

lemma critic_v2_degrades_on_invalid_json:
  assumes "\<not> (dict_get (summary_of (Some (report state))) ''collected'' 0 = num_functions state
             \<and> dict_get (summary_of (Some (report state))) ''passed'' 0
                 = dict_get (summary_of (Some (report state))) ''collected'' 0
             \<and> dict_get (summary_of (Some (report state))) ''failed'' 0 = 0
             \<and> dict_get (summary_of (Some (report state))) ''errors'' 0 = 0)"
    and "case brace_region (llm_critic w (critic_calls w)) of
           None \<Rightarrow> True
         | Some json_match \<Rightarrow> json_loads lib json_match = JSONDecodeError"
  shows "\<exists>state'. critic_node_v2 lib (state, w)
             = Inr (state', w\<lparr>critic_calls := Suc (critic_calls w)\<rparr>)
           \<and> status state' = ''test_error''
           \<and> feedback state' \<in> set [''Could not parse critic response'',
                                     ''Error parsing critic response'']
           \<and> iteration state' = iteration state + 1"
  using assms by (simp add: critic_node_v2_def Let_def dict_get_def split: option.splits)

text \<open>
  Claim C4 says that a reply which cannot be parsed as the verdict payload never makes
  the critic raise. In the framework-aware variant only \<open>json.JSONDecodeError\<close> is
  caught (the two lemmas above are the cases the code covers). The reply \<open>[]\<close> is
  valid JSON and no object: \<open>json.loads\<close> returns a list, \<open>result.get\<close> raises
  \<open>AttributeError\<close>, and the exception leaves \<open>critic_node\<close>.
\<close>

theorem critic_raises_on_json_list:
  "json_loads sample_library (llm_critic list_reply_world (critic_calls list_reply_world))
     = NonObject
   \<and> error_of (critic_node sample_library (initial_state [] [] 3, list_reply_world))
       = Some AttributeError"
  by code_simp

section \<open>Critic: a lost report\<close>

lemma critic_without_report:
  assumes "report state = empty_report"
    and "json_loads lib (llm_critic w (critic_calls w)) \<noteq> NonObject"
  shows "\<exists>state'. critic_node lib (state, w) = Inr (state', w\<lparr>critic_calls := Suc (critic_calls w)\<rparr>)
           \<and> status state' =
               (case json_loads lib (llm_critic w (critic_calls w)) of
                  Payload p \<Rightarrow> dict_get p ''status'' ''needs_fix''
                | other \<Rightarrow> ''needs_fix'')"
  using assms
  by (simp add: critic_node_def Let_def empty_report_def summary_of_def dict_get_def
        split: parsed.split)

text \<open>
  Claim C5 says that after the Execution Adapter returned no report the critic still
  returns a verdict and does not raise. The missing report itself is handled: the
  state holds the empty report, the counts read as zero and the verdict comes from
  the model's reply (lemma \<open>critic_without_report\<close>). But on that path the reply
  \<open>[]\<close> makes the critic raise, by the defect of claim C4: a test run that timed out,
  followed by that reply, ends the run with \<open>AttributeError\<close>.
\<close>

theorem critic_raises_after_lost_report:
  "fst (run_pytest_json timeout_world) = (- 1, None, [], ''timed out after 60 seconds'')
   \<and> report (fst (execution_node (initial_state [] [] 3, timeout_world))) = empty_report
   \<and> error_of (critic_node sample_library
         (execution_node (initial_state [] [] 3, timeout_world))) = Some AttributeError"
  by code_simp

section \<open>Execution Adapter: the report of an earlier run\<close>

lemma run_pytest_json_fresh:
  "fst (run_pytest_json (w\<lparr>report_json := f\<rparr>)) = fst (run_pytest_json w)"
  by (simp add: run_pytest_json_def Let_def split: proc_outcome.split)

lemma run_pytest_json_report_written:
  "fst (snd (fst (run_pytest_json w))) = Some r \<Longrightarrow>
   \<exists>returncode out err.
      pytest w (pytest_calls w) = Completed returncode out err (Some (Wellformed r))"
  by (auto simp: run_pytest_json_def Let_def written_file_def
        split: proc_outcome.splits option.splits file_content.splits)

text \<open>
  Claim C6 says that the report file of an earlier run is deleted before the test
  runner is called, so that a report returned is never an earlier run's. The
  framework-aware variant does so (the two lemmas above). \<open>Version2.py\<close> and
  \<open>Version1.py\<close> do not delete the file: when the runner ends without writing a
  report, they return the report an earlier run left behind.
\<close>

theorem stale_report_returned:
  "fst (run_pytest_json_v2 stale_world) = (4, Some stale_report, [], ''usage error'')
   \<and> map_sum id fst (run_pytest_json_v1 stale_world)
       = Inr (False, Some stale_report, [], ''usage error'')
   \<and> fst (run_pytest_json stale_world) = (4, None, [], ''usage error'')"
  by code_simp

section \<open>Loop Controller: budget termination\<close>

text \<open>
  What each node does to the counters: the iteration counter and its bound, the
  Iteration Records, and the calls of the models and of the test runner.
\<close>

lemma test_generator_node_effect:
  "iteration (fst (test_generator_node sw)) = iteration (fst sw)
   \<and> max_iterations (fst (test_generator_node sw)) = max_iterations (fst sw)
   \<and> iteration_results (fst (test_generator_node sw)) = iteration_results (fst sw)
   \<and> generator_calls (snd (test_generator_node sw)) = Suc (generator_calls (snd sw))
   \<and> pytest_calls (snd (test_generator_node sw)) = pytest_calls (snd sw)
   \<and> critic_calls (snd (test_generator_node sw)) = critic_calls (snd sw)
   \<and> reporter_calls (snd (test_generator_node sw)) = reporter_calls (snd sw)"
  by (simp add: test_generator_node_def Let_def)

lemma combiner_node_effect:
  "iteration (combiner_node lib state) = iteration state
   \<and> max_iterations (combiner_node lib state) = max_iterations state
   \<and> iteration_results (combiner_node lib state) = iteration_results state"
  by (simp add: combiner_node_def Let_def)

lemma execution_node_effect:
  "iteration (fst (execution_node sw)) = iteration (fst sw)
   \<and> max_iterations (fst (execution_node sw)) = max_iterations (fst sw)
   \<and> length (iteration_results (fst (execution_node sw))) = Suc (length (iteration_results (fst sw)))
   \<and> generator_calls (snd (execution_node sw)) = generator_calls (snd sw)
   \<and> pytest_calls (snd (execution_node sw)) = Suc (pytest_calls (snd sw))
   \<and> critic_calls (snd (execution_node sw)) = critic_calls (snd sw)
   \<and> reporter_calls (snd (execution_node sw)) = reporter_calls (snd sw)"
  by (simp add: execution_node_def run_pytest_json_def Let_def
        split: prod.split proc_outcome.split option.split file_content.split)

lemma critic_node_effect:
  "case critic_node lib sw of
     Inl e \<Rightarrow> True
   | Inr sw' \<Rightarrow>
       max_iterations (fst sw') = max_iterations (fst sw)
       \<and> iteration_results (fst sw') = iteration_results (fst sw)
       \<and> generator_calls (snd sw') = generator_calls (snd sw)
       \<and> pytest_calls (snd sw') = pytest_calls (snd sw)
       \<and> reporter_calls (snd sw') = reporter_calls (snd sw)
       \<and> (status (fst sw') = ''needs_fix'' \<longrightarrow>
            iteration (fst sw') = iteration (fst sw) + 1
            \<and> critic_calls (snd sw') = Suc (critic_calls (snd sw)))"
  by (simp add: critic_node_def Let_def split: parsed.split)

lemma critique_effect:
  assumes "critique lib sw = Inr sw'"
  shows "max_iterations (fst sw') = max_iterations (fst sw)
       \<and> length (iteration_results (fst sw')) = Suc (length (iteration_results (fst sw)))
       \<and> generator_calls (snd sw') = Suc (generator_calls (snd sw))
       \<and> pytest_calls (snd sw') = Suc (pytest_calls (snd sw))
       \<and> reporter_calls (snd sw') = reporter_calls (snd sw)
       \<and> (status (fst sw') = ''needs_fix'' \<longrightarrow>
            iteration (fst sw') = iteration (fst sw) + 1
            \<and> critic_calls (snd sw') = Suc (critic_calls (snd sw)))"
proof -
  define sw1 where "sw1 = test_generator_node sw"
  define sw2 where "sw2 = (combiner_node lib (fst sw1), snd sw1)"
  define sw3 where "sw3 = execution_node sw2"
  have c: "critic_node lib sw3 = Inr sw'"
    using assms by (simp add: critique_def Let_def sw1_def sw2_def sw3_def)
  have e1: "iteration (fst sw3) = iteration (fst sw)
            \<and> max_iterations (fst sw3) = max_iterations (fst sw)
            \<and> length (iteration_results (fst sw3)) = Suc (length (iteration_results (fst sw)))
            \<and> generator_calls (snd sw3) = Suc (generator_calls (snd sw))
            \<and> pytest_calls (snd sw3) = Suc (pytest_calls (snd sw))
            \<and> critic_calls (snd sw3) = critic_calls (snd sw)
            \<and> reporter_calls (snd sw3) = reporter_calls (snd sw)"
    using test_generator_node_effect [where sw = sw]
      combiner_node_effect [where lib = lib and state = "fst sw1"]
      execution_node_effect [where sw = sw2]
    by (simp add: sw1_def sw2_def sw3_def)
  show ?thesis
    using critic_node_effect [where lib = lib and sw = sw3] c e1 by simp
qed

lemma attempts_shift:
  "attempts (Suc k) lib sw =
     (case critique lib sw of Inl e \<Rightarrow> Inl e | Inr sw' \<Rightarrow> attempts k lib sw')"
  by (induction k) (auto split: sum.splits)

lemma run_loop_step:
  assumes "critique lib sw = Inr sw'" and "status (fst sw') = ''needs_fix''"
  shows "run_loop lib sw =
           (if iteration (fst sw') > max_iterations (fst sw')
            then Inr (reporter_node sw')
            else run_loop lib sw')"
  using assms
  by (subst run_loop.simps) (simp add: cycle_def should_continue_def)

lemma reporter_node_effect:
  "status (fst (reporter_node sw)) = status (fst sw)
   \<and> iteration (fst (reporter_node sw)) = iteration (fst sw)
   \<and> iteration_results (fst (reporter_node sw)) = iteration_results (fst sw)
   \<and> generator_calls (snd (reporter_node sw)) = generator_calls (snd sw)
   \<and> pytest_calls (snd (reporter_node sw)) = pytest_calls (snd sw)
   \<and> critic_calls (snd (reporter_node sw)) = critic_calls (snd sw)
   \<and> reporter_calls (snd (reporter_node sw)) = Suc (reporter_calls (snd sw))"
  by (simp add: reporter_node_def Let_def)

lemma function_detector_node_effect:
  "iteration (function_detector_node lib state) = iteration state
   \<and> max_iterations (function_detector_node lib state) = max_iterations state
   \<and> iteration_results (function_detector_node lib state) = iteration_results state"
  by (simp add: function_detector_node_def Let_def split: prod.split)

lemma run_loop_retries:
  assumes "1 \<le> n"
    and "iteration (fst sw) + int n = max_iterations (fst sw) + 1"
    and "\<forall>k. 1 \<le> k \<and> k \<le> n \<longrightarrow> verdict_after (attempts k lib sw) = Some ''needs_fix''"
  shows "\<exists>sw'. attempts n lib sw = Inr sw'
           \<and> run_loop lib sw = Inr (reporter_node sw')
           \<and> status (fst sw') = ''needs_fix''
           \<and> iteration (fst sw') = max_iterations (fst sw) + 1
           \<and> length (iteration_results (fst sw')) = length (iteration_results (fst sw)) + n
           \<and> generator_calls (snd sw') = generator_calls (snd sw) + n
           \<and> pytest_calls (snd sw') = pytest_calls (snd sw) + n
           \<and> critic_calls (snd sw') = critic_calls (snd sw) + n
           \<and> reporter_calls (snd sw') = reporter_calls (snd sw)"
  using assms
proof (induction n arbitrary: sw)
  case 0
  then show ?case by simp
next
  case (Suc n)
  have "1 \<le> Suc 0 \<and> Suc 0 \<le> Suc n" by simp
  then have "verdict_after (attempts (Suc 0) lib sw) = Some ''needs_fix''"
    using Suc.prems(3) by blast
  then obtain sw1 where c: "critique lib sw = Inr sw1" and v: "status (fst sw1) = ''needs_fix''"
    by (auto simp: verdict_after_def split: sum.splits)
  note e = critique_effect [OF c]
  have step: "run_loop lib sw =
           (if iteration (fst sw1) > max_iterations (fst sw1)
            then Inr (reporter_node sw1)
            else run_loop lib sw1)"
    by (rule run_loop_step [OF c v])
  show ?case
  proof (cases n)
    case 0
    have "attempts (Suc 0) lib sw = Inr sw1"
      using c by simp
    moreover have "iteration (fst sw1) > max_iterations (fst sw1)"
      using e v Suc.prems(2) 0 by simp
    ultimately show ?thesis
      using step e v Suc.prems(2) 0 by simp
  next
    case (Suc m)
    have p2: "iteration (fst sw1) + int n = max_iterations (fst sw1) + 1"
      using e v Suc.prems(2) by simp
    have p3: "\<forall>k. 1 \<le> k \<and> k \<le> n \<longrightarrow> verdict_after (attempts k lib sw1) = Some ''needs_fix''"
    proof (intro allI impI)
      fix k assume "1 \<le> k \<and> k \<le> n"
      then have "1 \<le> Suc k \<and> Suc k \<le> Suc n" by simp
      then have "verdict_after (attempts (Suc k) lib sw) = Some ''needs_fix''"
        using Suc.prems(3) by blast
      then show "verdict_after (attempts k lib sw1) = Some ''needs_fix''"
        using c by (simp add: attempts_shift del: attempts.simps)
    qed
    have "1 \<le> n" using Suc by simp
    from Suc.IH [OF this p2 p3] obtain sw' where
      a: "attempts n lib sw1 = Inr sw'"
      and r: "run_loop lib sw1 = Inr (reporter_node sw')"
      and vv: "status (fst sw') = ''needs_fix''"
      and i: "iteration (fst sw') = max_iterations (fst sw1) + 1"
      and l: "length (iteration_results (fst sw')) = length (iteration_results (fst sw1)) + n"
      and g: "generator_calls (snd sw') = generator_calls (snd sw1) + n"
      and p: "pytest_calls (snd sw') = pytest_calls (snd sw1) + n"
      and cc: "critic_calls (snd sw') = critic_calls (snd sw1) + n"
      and rc: "reporter_calls (snd sw') = reporter_calls (snd sw1)"
      by blast
    have a': "attempts (Suc n) lib sw = Inr sw'"
      using a c by (simp add: attempts_shift del: attempts.simps)
    have "\<not> iteration (fst sw1) > max_iterations (fst sw1)"
      using p2 Suc by simp
    then have r': "run_loop lib sw = Inr (reporter_node sw')"
      using step r by simp
    show ?thesis
      using a' r' vv i l g p cc rc e v by simp
  qed
qed

lemma generator_node_v2_effect:
  "iteration (fst (generator_node_v2 sw)) = iteration (fst sw)
   \<and> max_iterations (fst (generator_node_v2 sw)) = max_iterations (fst sw)
   \<and> iteration_results (fst (generator_node_v2 sw)) = iteration_results (fst sw)
   \<and> generator_calls (snd (generator_node_v2 sw)) = Suc (generator_calls (snd sw))
   \<and> pytest_calls (snd (generator_node_v2 sw)) = pytest_calls (snd sw)
   \<and> critic_calls (snd (generator_node_v2 sw)) = critic_calls (snd sw)
   \<and> reporter_calls (snd (generator_node_v2 sw)) = reporter_calls (snd sw)"
  by (simp add: generator_node_v2_def Let_def)

lemma execution_node_v2_effect:
  "iteration (fst (execution_node_v2 sw)) = iteration (fst sw)
   \<and> max_iterations (fst (execution_node_v2 sw)) = max_iterations (fst sw)
   \<and> length (iteration_results (fst (execution_node_v2 sw)))
       = Suc (length (iteration_results (fst sw)))
   \<and> generator_calls (snd (execution_node_v2 sw)) = generator_calls (snd sw)
   \<and> pytest_calls (snd (execution_node_v2 sw)) = Suc (pytest_calls (snd sw))
   \<and> critic_calls (snd (execution_node_v2 sw)) = critic_calls (snd sw)
   \<and> reporter_calls (snd (execution_node_v2 sw)) = reporter_calls (snd sw)"
  by (simp add: execution_node_v2_def run_pytest_json_v2_def Let_def
        split: prod.split proc_outcome.split option.split file_content.split)

lemma critic_node_v2_effect:
  "case critic_node_v2 lib sw of
     Inl e \<Rightarrow> True
   | Inr sw' \<Rightarrow>
       max_iterations (fst sw') = max_iterations (fst sw)
       \<and> iteration_results (fst sw') = iteration_results (fst sw)
       \<and> generator_calls (snd sw') = generator_calls (snd sw)
       \<and> pytest_calls (snd sw') = pytest_calls (snd sw)
       \<and> reporter_calls (snd sw') = reporter_calls (snd sw)
       \<and> (status (fst sw') \<in> set [''test_error'', ''incomplete''] \<longrightarrow>
            iteration (fst sw') = iteration (fst sw) + 1
            \<and> critic_calls (snd sw') = Suc (critic_calls (snd sw)))"
  by (simp add: critic_node_v2_def Let_def split: parsed.split option.split)

lemma critique_v2_effect:
  assumes "critique_v2 lib sw = Inr sw'"
  shows "max_iterations (fst sw') = max_iterations (fst sw)
       \<and> length (iteration_results (fst sw')) = Suc (length (iteration_results (fst sw)))
       \<and> generator_calls (snd sw') = Suc (generator_calls (snd sw))
       \<and> pytest_calls (snd sw') = Suc (pytest_calls (snd sw))
       \<and> reporter_calls (snd sw') = reporter_calls (snd sw)
       \<and> (status (fst sw') \<in> set [''test_error'', ''incomplete''] \<longrightarrow>
            iteration (fst sw') = iteration (fst sw) + 1
            \<and> critic_calls (snd sw') = Suc (critic_calls (snd sw)))"
proof -
  define sw1 where "sw1 = generator_node_v2 sw"
  define sw3 where "sw3 = execution_node_v2 sw1"
  have c: "critic_node_v2 lib sw3 = Inr sw'"
    using assms by (simp add: critique_v2_def sw1_def sw3_def)
  have e1: "iteration (fst sw3) = iteration (fst sw)
            \<and> max_iterations (fst sw3) = max_iterations (fst sw)
            \<and> length (iteration_results (fst sw3)) = Suc (length (iteration_results (fst sw)))
            \<and> generator_calls (snd sw3) = Suc (generator_calls (snd sw))
            \<and> pytest_calls (snd sw3) = Suc (pytest_calls (snd sw))
            \<and> critic_calls (snd sw3) = critic_calls (snd sw)
            \<and> reporter_calls (snd sw3) = reporter_calls (snd sw)"
    using generator_node_v2_effect [where sw = sw] execution_node_v2_effect [where sw = sw1]
    by (simp add: sw1_def sw3_def)
  have "case critic_node_v2 lib sw3 of
     Inl e \<Rightarrow> True
   | Inr sw' \<Rightarrow>
       max_iterations (fst sw') = max_iterations (fst sw3)
       \<and> iteration_results (fst sw') = iteration_results (fst sw3)
       \<and> generator_calls (snd sw') = generator_calls (snd sw3)
       \<and> pytest_calls (snd sw') = pytest_calls (snd sw3)
       \<and> reporter_calls (snd sw') = reporter_calls (snd sw3)
       \<and> (status (fst sw') \<in> set [''test_error'', ''incomplete''] \<longrightarrow>
            iteration (fst sw') = iteration (fst sw3) + 1
            \<and> critic_calls (snd sw') = Suc (critic_calls (snd sw3)))"
    by (rule critic_node_v2_effect)
  then show ?thesis
    using c e1 by auto
qed

lemma attempts_v2_shift:
  "attempts_v2 (Suc k) lib sw =
     (case critique_v2 lib sw of Inl e \<Rightarrow> Inl e | Inr sw' \<Rightarrow> attempts_v2 k lib sw')"
  by (induction k) (auto split: sum.splits)

lemma run_loop_v2_step:
  assumes "critique_v2 lib sw = Inr sw'"
    and "status (fst sw') \<in> set [''test_error'', ''incomplete'']"
  shows "run_loop_v2 lib sw =
           (if iteration (fst sw') > max_iterations (fst sw')
            then Inr (reporter_node_v2 sw')
            else run_loop_v2 lib sw')"
proof -
  have ne: "status (fst sw') \<noteq> ''success'' \<and> status (fst sw') \<noteq> ''source_error''"
    using assms(2) by auto
  show ?thesis
    using assms(1) ne assms(2)
    by (subst run_loop_v2.simps) (simp add: cycle_v2_def should_continue_v2_def)
qed

lemma reporter_node_v2_effect:
  "status (fst (reporter_node_v2 sw)) = status (fst sw)
   \<and> iteration (fst (reporter_node_v2 sw)) = iteration (fst sw)
   \<and> iteration_results (fst (reporter_node_v2 sw)) = iteration_results (fst sw)
   \<and> generator_calls (snd (reporter_node_v2 sw)) = generator_calls (snd sw)
   \<and> pytest_calls (snd (reporter_node_v2 sw)) = pytest_calls (snd sw)
   \<and> critic_calls (snd (reporter_node_v2 sw)) = critic_calls (snd sw)
   \<and> reporter_calls (snd (reporter_node_v2 sw)) = Suc (reporter_calls (snd sw))"
  by (simp add: reporter_node_v2_def Let_def)

lemma function_detector_node_v2_effect:
  "iteration (function_detector_node_v2 lib state) = iteration state
   \<and> max_iterations (function_detector_node_v2 lib state) = max_iterations state
   \<and> iteration_results (function_detector_node_v2 lib state) = iteration_results state"
  by (simp add: function_detector_node_v2_def Let_def)

lemma run_loop_v2_retries:
  assumes "1 \<le> n"
    and "iteration (fst sw) + int n = max_iterations (fst sw) + 1"
    and "\<forall>k. 1 \<le> k \<and> k \<le> n \<longrightarrow>
           verdict_after (attempts_v2 k lib sw) \<in> set [Some ''test_error'', Some ''incomplete'']"
  shows "\<exists>sw'. attempts_v2 n lib sw = Inr sw'
           \<and> run_loop_v2 lib sw = Inr (reporter_node_v2 sw')
           \<and> status (fst sw') \<in> set [''test_error'', ''incomplete'']
           \<and> iteration (fst sw') = max_iterations (fst sw) + 1
           \<and> length (iteration_results (fst sw')) = length (iteration_results (fst sw)) + n
           \<and> generator_calls (snd sw') = generator_calls (snd sw) + n
           \<and> pytest_calls (snd sw') = pytest_calls (snd sw) + n
           \<and> critic_calls (snd sw') = critic_calls (snd sw) + n
           \<and> reporter_calls (snd sw') = reporter_calls (snd sw)"
  using assms
proof (induction n arbitrary: sw)
  case 0
  then show ?case by simp
next
  case (Suc n)
  have "1 \<le> Suc 0 \<and> Suc 0 \<le> Suc n" by simp
  then have "verdict_after (attempts_v2 (Suc 0) lib sw)
               \<in> set [Some ''test_error'', Some ''incomplete'']"
    using Suc.prems(3) by blast
  then obtain sw1 where c: "critique_v2 lib sw = Inr sw1"
    and v: "status (fst sw1) \<in> set [''test_error'', ''incomplete'']"
    by (auto simp: verdict_after_def split: sum.splits)
  note e = critique_v2_effect [OF c]
  have step: "run_loop_v2 lib sw =
           (if iteration (fst sw1) > max_iterations (fst sw1)
            then Inr (reporter_node_v2 sw1)
            else run_loop_v2 lib sw1)"
    by (rule run_loop_v2_step [OF c v])
  have e': "max_iterations (fst sw1) = max_iterations (fst sw)
       \<and> length (iteration_results (fst sw1)) = Suc (length (iteration_results (fst sw)))
       \<and> generator_calls (snd sw1) = Suc (generator_calls (snd sw))
       \<and> pytest_calls (snd sw1) = Suc (pytest_calls (snd sw))
       \<and> reporter_calls (snd sw1) = reporter_calls (snd sw)
       \<and> iteration (fst sw1) = iteration (fst sw) + 1
       \<and> critic_calls (snd sw1) = Suc (critic_calls (snd sw))"
    using e v by blast
  show ?case
  proof (cases n)
    case 0
    have "attempts_v2 (Suc 0) lib sw = Inr sw1"
      using c by simp
    moreover have "iteration (fst sw1) > max_iterations (fst sw1)"
      using e' Suc.prems(2) 0 by simp
    ultimately show ?thesis
      using step e' v Suc.prems(2) 0 by simp
  next
    case (Suc m)
    have p2: "iteration (fst sw1) + int n = max_iterations (fst sw1) + 1"
      using e' Suc.prems(2) by simp
    have p3: "\<forall>k. 1 \<le> k \<and> k \<le> n \<longrightarrow>
           verdict_after (attempts_v2 k lib sw1) \<in> set [Some ''test_error'', Some ''incomplete'']"
    proof (intro allI impI)
      fix k assume "1 \<le> k \<and> k \<le> n"
      then have "1 \<le> Suc k \<and> Suc k \<le> Suc n" by simp
      then have "verdict_after (attempts_v2 (Suc k) lib sw)
                   \<in> set [Some ''test_error'', Some ''incomplete'']"
        using Suc.prems(3) by blast
      then show "verdict_after (attempts_v2 k lib sw1)
                   \<in> set [Some ''test_error'', Some ''incomplete'']"
        using c by (simp add: attempts_v2_shift del: attempts_v2.simps)
    qed
    have "1 \<le> n" using Suc by simp
    from Suc.IH [OF this p2 p3] obtain sw' where
      a: "attempts_v2 n lib sw1 = Inr sw'"
      and r: "run_loop_v2 lib sw1 = Inr (reporter_node_v2 sw')"
      and vv: "status (fst sw') \<in> set [''test_error'', ''incomplete'']"
      and i: "iteration (fst sw') = max_iterations (fst sw1) + 1"
      and l: "length (iteration_results (fst sw')) = length (iteration_results (fst sw1)) + n"
      and g: "generator_calls (snd sw') = generator_calls (snd sw1) + n"
      and p: "pytest_calls (snd sw') = pytest_calls (snd sw1) + n"
      and cc: "critic_calls (snd sw') = critic_calls (snd sw1) + n"
      and rc: "reporter_calls (snd sw') = reporter_calls (snd sw1)"
      by blast
    have a': "attempts_v2 (Suc n) lib sw = Inr sw'"
      using a c by (simp add: attempts_v2_shift del: attempts_v2.simps)
    have "\<not> iteration (fst sw1) > max_iterations (fst sw1)"
      using p2 Suc by simp
    then have r': "run_loop_v2 lib sw = Inr (reporter_node_v2 sw')"
      using step r by simp
    show ?thesis
      using a' r' vv i l g p cc rc e' by simp
  qed
qed

text \<open>
  A run with a budget of at least one attempt starts at iteration 1. If the verdict of
  the critic after each of the first \<open>max_iterations\<close> attempts is \<open>needs_fix\<close> (and none
  of them raises), the run returns: its iteration counter is \<open>max_iterations + 1\<close>, and it
  has made exactly \<open>max_iterations\<close> generations, test runs and critic calls, one
  Iteration Record for each, and one report. Its final verdict is the verdict of the
  last attempt, \<open>needs_fix\<close>. The same holds for \<open>Version2.py\<close> with its retry verdicts
  \<open>test_error\<close> and \<open>incomplete\<close> in place of \<open>needs_fix\<close>.
\<close>

lemma exhausted_budget:
  assumes "iteration state = 1" and "1 \<le> max_iterations state"
  shows "((\<forall>k. 1 \<le> k \<and> int k \<le> max_iterations state \<longrightarrow>
             verdict_after (attempts k lib (function_detector_node lib state, w))
               = Some ''needs_fix'')
          \<longrightarrow> (\<exists>s' w'. run_loop lib (function_detector_node lib state, w) = Inr (s', w')
                 \<and> status s' = ''needs_fix''
                 \<and> verdict_after (attempts (nat (max_iterations state)) lib
                       (function_detector_node lib state, w)) = Some (status s')
                 \<and> iteration s' = max_iterations state + 1
                 \<and> length (iteration_results s')
                     = length (iteration_results state) + nat (max_iterations state)
                 \<and> generator_calls w' = generator_calls w + nat (max_iterations state)
                 \<and> pytest_calls w' = pytest_calls w + nat (max_iterations state)
                 \<and> critic_calls w' = critic_calls w + nat (max_iterations state)
                 \<and> reporter_calls w' = Suc (reporter_calls w)))
       \<and> ((\<forall>k. 1 \<le> k \<and> int k \<le> max_iterations state \<longrightarrow>
             verdict_after (attempts_v2 k lib (function_detector_node_v2 lib state, w))
               \<in> set [Some ''test_error'', Some ''incomplete''])
          \<longrightarrow> (\<exists>s' w'. build_graph_v2 lib (state, w) = Inr (s', w')
                 \<and> status s' \<in> set [''test_error'', ''incomplete'']
                 \<and> verdict_after (attempts_v2 (nat (max_iterations state)) lib
                       (function_detector_node_v2 lib state, w)) = Some (status s')
                 \<and> iteration s' = max_iterations state + 1
                 \<and> length (iteration_results s')
                     = length (iteration_results state) + nat (max_iterations state)
                 \<and> generator_calls w' = generator_calls w + nat (max_iterations state)
                 \<and> pytest_calls w' = pytest_calls w + nat (max_iterations state)
                 \<and> critic_calls w' = critic_calls w + nat (max_iterations state)
                 \<and> reporter_calls w' = Suc (reporter_calls w)))"
proof (intro conjI impI)
  define n where "n = nat (max_iterations state)"
  have n: "1 \<le> n \<and> int n = max_iterations state"
    using assms(2) by (simp add: n_def)
  {
    assume h: "\<forall>k. 1 \<le> k \<and> int k \<le> max_iterations state \<longrightarrow>
             verdict_after (attempts k lib (function_detector_node lib state, w))
               = Some ''needs_fix''"
    define sw where "sw = (function_detector_node lib state, w)"
    have d: "iteration (fst sw) = 1 \<and> max_iterations (fst sw) = max_iterations state
             \<and> iteration_results (fst sw) = iteration_results state \<and> snd sw = w"
      using function_detector_node_effect [where lib = lib and state = state] assms(1)
      by (simp add: sw_def)
    have p2: "iteration (fst sw) + int n = max_iterations (fst sw) + 1"
      using d n by simp
    have p3: "\<forall>k. 1 \<le> k \<and> k \<le> n \<longrightarrow> verdict_after (attempts k lib sw) = Some ''needs_fix''"
      using h n by (simp add: sw_def)
    from run_loop_retries [OF _ p2 p3] n obtain sw' where
      a: "attempts n lib sw = Inr sw'"
      and r: "run_loop lib sw = Inr (reporter_node sw')"
      and v: "status (fst sw') = ''needs_fix''"
      and f: "iteration (fst sw') = max_iterations (fst sw) + 1
           \<and> length (iteration_results (fst sw')) = length (iteration_results (fst sw)) + n
           \<and> generator_calls (snd sw') = generator_calls (snd sw) + n
           \<and> pytest_calls (snd sw') = pytest_calls (snd sw) + n
           \<and> critic_calls (snd sw') = critic_calls (snd sw) + n
           \<and> reporter_calls (snd sw') = reporter_calls (snd sw)"
      by blast
    define final where "final = reporter_node sw'"
    have m: "run_loop lib (function_detector_node lib state, w) = Inr (fst final, snd final)"
      using r by (simp add: sw_def final_def)
    have "status (fst final) = ''needs_fix''
                 \<and> verdict_after (attempts (nat (max_iterations state)) lib
                       (function_detector_node lib state, w)) = Some (status (fst final))
                 \<and> iteration (fst final) = max_iterations state + 1
                 \<and> length (iteration_results (fst final))
                     = length (iteration_results state) + nat (max_iterations state)
                 \<and> generator_calls (snd final) = generator_calls w + nat (max_iterations state)
                 \<and> pytest_calls (snd final) = pytest_calls w + nat (max_iterations state)
                 \<and> critic_calls (snd final) = critic_calls w + nat (max_iterations state)
                 \<and> reporter_calls (snd final) = Suc (reporter_calls w)"
      using reporter_node_effect [where sw = sw'] f d v a
      by (simp add: final_def n_def sw_def verdict_after_def)
    then show "\<exists>s' w'. run_loop lib (function_detector_node lib state, w) = Inr (s', w')
                 \<and> status s' = ''needs_fix''
                 \<and> verdict_after (attempts (nat (max_iterations state)) lib
                       (function_detector_node lib state, w)) = Some (status s')
                 \<and> iteration s' = max_iterations state + 1
                 \<and> length (iteration_results s')
                     = length (iteration_results state) + nat (max_iterations state)
                 \<and> generator_calls w' = generator_calls w + nat (max_iterations state)
                 \<and> pytest_calls w' = pytest_calls w + nat (max_iterations state)
                 \<and> critic_calls w' = critic_calls w + nat (max_iterations state)
                 \<and> reporter_calls w' = Suc (reporter_calls w)"
      using m by blast
  }
  {
    assume h: "\<forall>k. 1 \<le> k \<and> int k \<le> max_iterations state \<longrightarrow>
             verdict_after (attempts_v2 k lib (function_detector_node_v2 lib state, w))
               \<in> set [Some ''test_error'', Some ''incomplete'']"
    define sw where "sw = (function_detector_node_v2 lib state, w)"
    have d: "iteration (fst sw) = 1 \<and> max_iterations (fst sw) = max_iterations state
             \<and> iteration_results (fst sw) = iteration_results state \<and> snd sw = w"
      using function_detector_node_v2_effect [where lib = lib and state = state] assms(1)
      by (simp add: sw_def)
    have p2: "iteration (fst sw) + int n = max_iterations (fst sw) + 1"
      using d n by simp
    have p3: "\<forall>k. 1 \<le> k \<and> k \<le> n \<longrightarrow>
           verdict_after (attempts_v2 k lib sw) \<in> set [Some ''test_error'', Some ''incomplete'']"
      using h n by (simp add: sw_def)
    from run_loop_v2_retries [OF _ p2 p3] n obtain sw' where
      a: "attempts_v2 n lib sw = Inr sw'"
      and r: "run_loop_v2 lib sw = Inr (reporter_node_v2 sw')"
      and v: "status (fst sw') \<in> set [''test_error'', ''incomplete'']"
      and f: "iteration (fst sw') = max_iterations (fst sw) + 1
           \<and> length (iteration_results (fst sw')) = length (iteration_results (fst sw)) + n
           \<and> generator_calls (snd sw') = generator_calls (snd sw) + n
           \<and> pytest_calls (snd sw') = pytest_calls (snd sw) + n
           \<and> critic_calls (snd sw') = critic_calls (snd sw) + n
           \<and> reporter_calls (snd sw') = reporter_calls (snd sw)"
      by blast
    define final where "final = reporter_node_v2 sw'"
    have m: "build_graph_v2 lib (state, w) = Inr (fst final, snd final)"
      using r by (simp add: build_graph_v2_def sw_def final_def)
    have "status (fst final) \<in> set [''test_error'', ''incomplete'']
                 \<and> verdict_after (attempts_v2 (nat (max_iterations state)) lib
                       (function_detector_node_v2 lib state, w)) = Some (status (fst final))
                 \<and> iteration (fst final) = max_iterations state + 1
                 \<and> length (iteration_results (fst final))
                     = length (iteration_results state) + nat (max_iterations state)
                 \<and> generator_calls (snd final) = generator_calls w + nat (max_iterations state)
                 \<and> pytest_calls (snd final) = pytest_calls w + nat (max_iterations state)
                 \<and> critic_calls (snd final) = critic_calls w + nat (max_iterations state)
                 \<and> reporter_calls (snd final) = Suc (reporter_calls w)"
      using reporter_node_v2_effect [where sw = sw'] f d v a
      by (simp add: final_def n_def sw_def verdict_after_def)
    then show "\<exists>s' w'. build_graph_v2 lib (state, w) = Inr (s', w')
                 \<and> status s' \<in> set [''test_error'', ''incomplete'']
                 \<and> verdict_after (attempts_v2 (nat (max_iterations state)) lib
                       (function_detector_node_v2 lib state, w)) = Some (status s')
                 \<and> iteration s' = max_iterations state + 1
                 \<and> length (iteration_results s')
                     = length (iteration_results state) + nat (max_iterations state)
                 \<and> generator_calls w' = generator_calls w + nat (max_iterations state)
                 \<and> pytest_calls w' = pytest_calls w + nat (max_iterations state)
                 \<and> critic_calls w' = critic_calls w + nat (max_iterations state)
                 \<and> reporter_calls w' = Suc (reporter_calls w)"
      using m by blast
  }
qed

text \<open>
  Claim C1 says that such a run ends with the final verdict \<open>max_iterations\<close>. It ends at
  iteration \<open>max_iterations + 1\<close> after exactly \<open>max_iterations\<close> attempts, but with the
  verdict of the last attempt: the write of \<open>max_iterations\<close> is made by the function of
  the conditional edge to its own argument and does not reach the state of the run.
  With a budget of two attempts and a critic whose replies are no JSON, both attempts
  end with \<open>needs_fix\<close> and the final verdict is \<open>needs_fix\<close>; in \<open>Version2.py\<close> both end
  with \<open>test_error\<close> and the final verdict is \<open>test_error\<close>.
\<close>

theorem exhausted_budget_verdict:
  "verdict_after (attempts (Suc 0) sample_library
      (function_detector_node sample_library (initial_state [] [] 2), quiet_world))
     = Some ''needs_fix''
   \<and> verdict_after (attempts (Suc (Suc 0)) sample_library
        (function_detector_node sample_library (initial_state [] [] 2), quiet_world))
       = Some ''needs_fix''
   \<and> (\<exists>s' w'. run_loop sample_library
                  (function_detector_node sample_library (initial_state [] [] 2), quiet_world)
                = Inr (s', w')
         \<and> status s' = ''needs_fix'' \<and> iteration s' = 3
         \<and> length (iteration_results s') = 2 \<and> generator_calls w' = 2
         \<and> pytest_calls w' = 2 \<and> critic_calls w' = 2 \<and> reporter_calls w' = 1)
   \<and> verdict_after (attempts_v2 (Suc 0) sample_library
        (function_detector_node_v2 sample_library (initial_state [] [] 2), quiet_world))
       = Some ''test_error''
   \<and> verdict_after (attempts_v2 (Suc (Suc 0)) sample_library
        (function_detector_node_v2 sample_library (initial_state [] [] 2), quiet_world))
       = Some ''test_error''
   \<and> (\<exists>s' w'. build_graph_v2 sample_library (initial_state [] [] 2, quiet_world)
                = Inr (s', w')
         \<and> status s' = ''test_error'' \<and> iteration s' = 3
         \<and> length (iteration_results s') = 2 \<and> generator_calls w' = 2
         \<and> pytest_calls w' = 2 \<and> critic_calls w' = 2 \<and> reporter_calls w' = 1)"
proof -
  have i: "iteration (initial_state [] [] 2) = 1 \<and> max_iterations (initial_state [] [] 2) = 2
           \<and> iteration_results (initial_state [] [] 2) = []"
    by (simp add: initial_state_def)
  have q: "generator_calls quiet_world = 0 \<and> pytest_calls quiet_world = 0
           \<and> critic_calls quiet_world = 0 \<and> reporter_calls quiet_world = 0"
    by (simp add: quiet_world_def)
  have a1: "verdict_after (attempts (Suc 0) sample_library
              (function_detector_node sample_library (initial_state [] [] 2), quiet_world))
            = Some ''needs_fix''"
    by code_simp
  have a2: "verdict_after (attempts (Suc (Suc 0)) sample_library
              (function_detector_node sample_library (initial_state [] [] 2), quiet_world))
            = Some ''needs_fix''"
    by code_simp
  have b1: "verdict_after (attempts_v2 (Suc 0) sample_library
              (function_detector_node_v2 sample_library (initial_state [] [] 2), quiet_world))
            = Some ''test_error''"
    by code_simp
  have b2: "verdict_after (attempts_v2 (Suc (Suc 0)) sample_library
              (function_detector_node_v2 sample_library (initial_state [] [] 2), quiet_world))
            = Some ''test_error''"
    by code_simp
  have k: "\<And>k. 1 \<le> k \<and> int k \<le> max_iterations (initial_state [] [] 2)
             \<Longrightarrow> k = Suc 0 \<or> k = Suc (Suc 0)"
    using i by auto
  have h: "\<forall>k. 1 \<le> k \<and> int k \<le> max_iterations (initial_state [] [] 2) \<longrightarrow>
             verdict_after (attempts k sample_library
               (function_detector_node sample_library (initial_state [] [] 2), quiet_world))
               = Some ''needs_fix''"
    using k a1 a2 by blast
  have h2: "\<forall>k. 1 \<le> k \<and> int k \<le> max_iterations (initial_state [] [] 2) \<longrightarrow>
             verdict_after (attempts_v2 k sample_library
               (function_detector_node_v2 sample_library (initial_state [] [] 2), quiet_world))
               \<in> set [Some ''test_error'', Some ''incomplete'']"
  proof (intro allI impI)
    fix j assume "1 \<le> j \<and> int j \<le> max_iterations (initial_state [] [] 2)"
    then have "j = Suc 0 \<or> j = Suc (Suc 0)" by (rule k)
    then have "verdict_after (attempts_v2 j sample_library
               (function_detector_node_v2 sample_library (initial_state [] [] 2), quiet_world))
               = Some ''test_error''"
      using b1 b2 by blast
    then show "verdict_after (attempts_v2 j sample_library
               (function_detector_node_v2 sample_library (initial_state [] [] 2), quiet_world))
               \<in> set [Some ''test_error'', Some ''incomplete'']"
      by simp
  qed
  have n: "nat (max_iterations (initial_state [] [] 2)) = Suc (Suc 0)
           \<and> max_iterations (initial_state [] [] 2) + 1 = 3"
    using i by simp
  have i1: "iteration (initial_state [] [] 2) = 1" and i2: "1 \<le> max_iterations (initial_state [] [] 2)"
    using i by simp_all
  note g = exhausted_budget [OF i1 i2, of sample_library quiet_world]
  from g [THEN conjunct1, THEN mp, OF h] obtain s1 w1 where
    r1: "run_loop sample_library
           (function_detector_node sample_library (initial_state [] [] 2), quiet_world)
         = Inr (s1, w1)"
    and f1: "status s1 = ''needs_fix'' \<and> iteration s1 = 3
         \<and> length (iteration_results s1) = 2 \<and> generator_calls w1 = 2
         \<and> pytest_calls w1 = 2 \<and> critic_calls w1 = 2 \<and> reporter_calls w1 = 1"
    using i q n by (auto simp: numeral_2_eq_2 simp del: attempts.simps)
  from g [THEN conjunct2, THEN mp, OF h2] obtain s2 w2 where
    r2: "build_graph_v2 sample_library (initial_state [] [] 2, quiet_world) = Inr (s2, w2)"
    and v2: "verdict_after (attempts_v2 (nat (max_iterations (initial_state [] [] 2))) sample_library
               (function_detector_node_v2 sample_library (initial_state [] [] 2), quiet_world))
             = Some (status s2)"
    and f2: "iteration s2 = 3
         \<and> length (iteration_results s2) = 2 \<and> generator_calls w2 = 2
         \<and> pytest_calls w2 = 2 \<and> critic_calls w2 = 2 \<and> reporter_calls w2 = 1"
    using i q n by (auto simp: numeral_2_eq_2 simp del: attempts_v2.simps)
  have "Some (status s2) = Some ''test_error''"
    using v2 b2 n by (simp del: attempts_v2.simps)
  then have s2: "status s2 = ''test_error''"
    by simp
  have e1: "\<exists>s' w'. run_loop sample_library
                  (function_detector_node sample_library (initial_state [] [] 2), quiet_world)
                = Inr (s', w')
         \<and> status s' = ''needs_fix'' \<and> iteration s' = 3
         \<and> length (iteration_results s') = 2 \<and> generator_calls w' = 2
         \<and> pytest_calls w' = 2 \<and> critic_calls w' = 2 \<and> reporter_calls w' = 1"
    using r1 f1 by blast
  have e2: "\<exists>s' w'. build_graph_v2 sample_library (initial_state [] [] 2, quiet_world)
                = Inr (s', w')
         \<and> status s' = ''test_error'' \<and> iteration s' = 3
         \<and> length (iteration_results s') = 2 \<and> generator_calls w' = 2
         \<and> pytest_calls w' = 2 \<and> critic_calls w' = 2 \<and> reporter_calls w' = 1"
    using r2 f2 s2 by blast
  show ?thesis
    by (intro conjI a1 a2 e1 b1 b2 e2)
qed

text \<open>
  The bound is looked at only after the critic: with a budget of zero the first attempt
  is still made, and the run ends at iteration 2 after one generation.
\<close>

lemma zero_budget_runs_one_attempt:
  "iteration (initial_state [] [] 0) = 1 \<and> max_iterations (initial_state [] [] 0) = 0
   \<and> (case run_loop sample_library
            (function_detector_node sample_library (initial_state [] [] 0), quiet_world) of
         Inl e \<Rightarrow> False
       | Inr (s', w') \<Rightarrow>
           iteration s' = 2 \<and> length (iteration_results s') = 1 \<and> generator_calls w' = 1)"
proof -
  have i: "iteration (initial_state [] [] 0) = 1" by (simp add: initial_state_def)
  have j: "max_iterations (initial_state [] [] 0) = 0" by (simp add: initial_state_def)
  have m: "case run_loop sample_library
            (function_detector_node sample_library (initial_state [] [] 0), quiet_world) of
         Inl e \<Rightarrow> False
       | Inr (s', w') \<Rightarrow>
           iteration s' = 2 \<and> length (iteration_results s') = 1 \<and> generator_calls w' = 1"
    by code_simp
  show ?thesis
    by (intro conjI i j m)
qed

text \<open>
  In \<open>Version2.py\<close> the verdict \<open>needs_fix\<close> is not a retry verdict: the critic does not
  advance the counter and the run ends after the first attempt with that verdict.
\<close>

lemma needs_fix_ends_run_v2:
  "verdict_after (critique_v2 needs_fix_library
      (function_detector_node_v2 needs_fix_library (initial_state [] [] 3), object_reply_world))
     = Some ''needs_fix''
   \<and> (case build_graph_v2 needs_fix_library (initial_state [] [] 3, object_reply_world) of
         Inl e \<Rightarrow> False
       | Inr (s', w') \<Rightarrow>
           status s' = ''needs_fix'' \<and> iteration s' = 1
           \<and> length (iteration_results s') = 1 \<and> generator_calls w' = 1)"
proof -
  have a: "verdict_after (critique_v2 needs_fix_library
      (function_detector_node_v2 needs_fix_library (initial_state [] [] 3), object_reply_world))
     = Some ''needs_fix''"
    by code_simp
  have m: "case build_graph_v2 needs_fix_library (initial_state [] [] 3, object_reply_world) of
         Inl e \<Rightarrow> False
       | Inr (s', w') \<Rightarrow>
           status s' = ''needs_fix'' \<and> iteration s' = 1
           \<and> length (iteration_results s') = 1 \<and> generator_calls w' = 1"
    by code_simp
  show ?thesis
    by (intro conjI a m)
qed

section \<open>Code Synthesizer: the payload of a reply\<close>



















end
